theory Spec2Isabelle
  imports Main "HOL-Library.AList"
begin

section \<open>Python values and the JSON decoder\<close>

text \<open>
  The values \<^verbatim>\<open>json.loads\<close> produces: \<^verbatim>\<open>None\<close>, booleans, integers,
  floats, strings, lists and dictionaries. A dictionary is an association list in
  insertion order with one entry per key. A float is kept as the exact decimal
  \<open>m * 10 ^ e\<close> of its literal (CPython rounds it to the nearest double; no property
  below depends on more than its sign). Python's \<^verbatim>\<open>None\<close> is also the second
  component of every failure result of the generator, so JSON \<^verbatim>\<open>null\<close> and
  "no itinerary" are the same value \<open>PyNone\<close>, as they are in the source.
\<close>

datatype pyval =
    PyNone
  | PyBool bool
  | PyInt int
  | PyFloat int int
  | PyStr string
  | PyList "pyval list"
  | PyDict "(string \<times> pyval) list"

text \<open>
  The three ways a call of \<^verbatim>\<open>json.loads\<close> can end: it returns a value, it raises
  \<^verbatim>\<open>json.JSONDecodeError\<close>, or it raises another \<^verbatim>\<open>Exception\<close> (a
  \<^verbatim>\<open>TypeError\<close> when the argument is \<^verbatim>\<open>None\<close>). The string is \<^verbatim>\<open>str(e)\<close>.
\<close>

datatype loads_result =
    Decoded pyval
  | JSONDecodeError string
  | OtherException string

text \<open>
  \<^verbatim>\<open>json.loads\<close> is library code. The generator below takes the decoder as an
  argument, and every general theorem holds for any decoder. \<open>json_loads\<close> is a
  reference decoder used where a theorem speaks of concrete response texts: it reads the
  JSON grammar (literals, numbers, strings with the one-character escapes, arrays,
  objects, insignificant white space). Outside this fragment are the
  \<^verbatim>\<open>\uXXXX\<close> escapes and the constants \<^verbatim>\<open>NaN\<close> and \<^verbatim>\<open>Infinity\<close> that CPython
  also reads; the reference decoder rejects them. CPython further refuses an integer of
  more than 4300 digits and very deep nesting with exceptions of their own, and reads a
  number beyond the range of a double as infinity; the reference decoder reads all three
  as they are written. None of the sample texts below is of these kinds.
\<close>

datatype token =
    TLBrace | TRBrace | TLBrack | TRBrack | TColon | TComma
  | TWord string
  | TStr string

datatype lex_state = LStart | LWord string | LStr string | LEsc string

definition is_ws :: "char \<Rightarrow> bool" where
  "is_ws c \<longleftrightarrow> c = CHR '' '' \<or> c = CHR 0x09 \<or> c = CHR 0x0A \<or> c = CHR 0x0D"

definition punct :: "char \<Rightarrow> token option" where
  "punct c =
     (if c = CHR ''{'' then Some TLBrace else if c = CHR ''}'' then Some TRBrace
      else if c = CHR ''['' then Some TLBrack else if c = CHR '']'' then Some TRBrack
      else if c = CHR '':'' then Some TColon else if c = CHR '','' then Some TComma
      else None)"

definition unescape :: "char \<Rightarrow> char option" where
  "unescape c =
     (if c = CHR 0x22 \<or> c = CHR 0x5C \<or> c = CHR ''/'' then Some c
      else if c = CHR ''b'' then Some (CHR 0x08)
      else if c = CHR ''f'' then Some (CHR 0x0C)
      else if c = CHR ''n'' then Some (CHR 0x0A)
      else if c = CHR ''r'' then Some (CHR 0x0D)
      else if c = CHR ''t'' then Some (CHR 0x09)
      else None)"

text \<open>
  The scanner: one character per step. \<open>CHR 0x22\<close> is the double quote, \<open>CHR 0x5C\<close>
  the backslash. A word is a maximal run of characters that are neither white space,
  punctuation nor a quote; it is classified afterwards. A raw control character inside a
  string is refused, as the strict decoder does.
\<close>

fun lex :: "lex_state \<Rightarrow> char list \<Rightarrow> token list option" where
  "lex LStart [] = Some []"
| "lex (LWord w) [] = Some [TWord (rev w)]"
| "lex (LStr s) [] = None"
| "lex (LEsc s) [] = None"
| "lex LStart (c # cs) =
     (if is_ws c then lex LStart cs
      else if c = CHR 0x22 then lex (LStr []) cs
      else case punct c of
             Some t \<Rightarrow> map_option ((#) t) (lex LStart cs)
           | None \<Rightarrow> lex (LWord [c]) cs)"
| "lex (LWord w) (c # cs) =
     (if is_ws c then map_option ((#) (TWord (rev w))) (lex LStart cs)
      else if c = CHR 0x22 then map_option ((#) (TWord (rev w))) (lex (LStr []) cs)
      else case punct c of
             Some t \<Rightarrow> map_option (\<lambda>ts. TWord (rev w) # t # ts) (lex LStart cs)
           | None \<Rightarrow> lex (LWord (c # w)) cs)"
| "lex (LStr s) (c # cs) =
     (if c = CHR 0x22 then map_option ((#) (TStr (rev s))) (lex LStart cs)
      else if c = CHR 0x5C then lex (LEsc s) cs
      else if (of_char c :: nat) < 0x20 then None
      else lex (LStr (c # s)) cs)"
| "lex (LEsc s) (c # cs) =
     (case unescape c of Some d \<Rightarrow> lex (LStr (d # s)) cs | None \<Rightarrow> None)"

definition is_digit :: "char \<Rightarrow> bool" where
  "is_digit c \<longleftrightarrow> 48 \<le> (of_char c :: nat) \<and> (of_char c :: nat) \<le> 57"

definition digits_value :: "string \<Rightarrow> nat" where
  "digits_value ds = foldl (\<lambda>n c. 10 * n + (of_char c - 48)) 0 ds"

text \<open>
  A number word: an optional minus sign, an integer part without a leading zero, an
  optional fraction and an optional exponent. Without fraction and exponent the value is
  a Python \<^verbatim>\<open>int\<close>, otherwise a \<^verbatim>\<open>float\<close>.
\<close>

definition split_minus :: "string \<Rightarrow> bool \<times> string" where
  "split_minus w =
     (case w of [] \<Rightarrow> (False, w)
      | c # r \<Rightarrow> if c = CHR ''-'' then (True, r) else (False, w))"

definition split_fraction :: "string \<Rightarrow> string option \<times> string" where
  "split_fraction r =
     (case r of [] \<Rightarrow> (None, r)
      | c # r' \<Rightarrow>
          if c = CHR ''.'' then (Some (takeWhile is_digit r'), dropWhile is_digit r')
          else (None, r))"

definition split_exponent :: "string \<Rightarrow> (bool \<times> string) option \<times> string" where
  "split_exponent r =
     (case r of [] \<Rightarrow> (None, r)
      | c # r' \<Rightarrow>
          if c = CHR ''e'' \<or> c = CHR ''E'' then
            (let (eneg, ds) =
               (case r' of [] \<Rightarrow> (False, r')
                | s # rest \<Rightarrow>
                    if s = CHR ''-'' then (True, rest)
                    else if s = CHR ''+'' then (False, rest)
                    else (False, r'))
             in (Some (eneg, takeWhile is_digit ds), dropWhile is_digit ds))
          else (None, r))"

definition number_word :: "string \<Rightarrow> pyval option" where
  "number_word w =
     (let (neg, r0) = split_minus w;
          ip = takeWhile is_digit r0;
          (fp, r2) = split_fraction (dropWhile is_digit r0);
          (ep, r3) = split_exponent r2;
          sgn = (if neg then - 1 else 1 :: int)
      in if ip = [] \<or> (1 < length ip \<and> hd ip = CHR ''0'') \<or> fp = Some []
            \<or> (case ep of Some (_, ds) \<Rightarrow> ds = [] | None \<Rightarrow> False) \<or> r3 \<noteq> []
         then None
         else if fp = None \<and> ep = None then Some (PyInt (sgn * int (digits_value ip)))
         else
           (let frac = (case fp of Some ds \<Rightarrow> ds | None \<Rightarrow> []);
                expo = (case ep of
                          Some (eneg, ds) \<Rightarrow>
                            (if eneg then - int (digits_value ds) else int (digits_value ds))
                        | None \<Rightarrow> 0)
            in Some (PyFloat (sgn * int (digits_value (ip @ frac)))
                       (expo - int (length frac)))))"

definition word_value :: "string \<Rightarrow> pyval option" where
  "word_value w =
     (if w = ''null'' then Some PyNone
      else if w = ''true'' then Some (PyBool True)
      else if w = ''false'' then Some (PyBool False)
      else number_word w)"

text \<open>
  The parser is a pushdown automaton over the tokens, one token per step. A frame is an
  enclosing array with the elements read so far (latest first), or an enclosing object
  with the entries read so far and the key whose value is being read. A repeated key keeps
  its first position and takes the later value, as a Python \<^verbatim>\<open>dict\<close> does.
\<close>

datatype frame =
    FArr "pyval list"
  | FObj "(string \<times> pyval) list" string

datatype pstate =
    PValue "frame list"
  | PArrFirst "frame list"
  | PObjFirst "frame list"
  | PKey "(string \<times> pyval) list" "frame list"
  | PColon "(string \<times> pyval) list" string "frame list"
  | PAfter pyval "frame list"

definition begin_value :: "frame list \<Rightarrow> token \<Rightarrow> pstate option" where
  "begin_value st t =
     (case t of
        TLBrack \<Rightarrow> Some (PArrFirst st)
      | TLBrace \<Rightarrow> Some (PObjFirst st)
      | TStr s \<Rightarrow> Some (PAfter (PyStr s) st)
      | TWord w \<Rightarrow> map_option (\<lambda>v. PAfter v st) (word_value w)
      | _ \<Rightarrow> None)"

definition close_value :: "pyval \<Rightarrow> frame list \<Rightarrow> token \<Rightarrow> pstate option" where
  "close_value v st t =
     (case st of
        [] \<Rightarrow> None
      | FArr acc # st' \<Rightarrow>
          (case t of
             TComma \<Rightarrow> Some (PValue (FArr (v # acc) # st'))
           | TRBrack \<Rightarrow> Some (PAfter (PyList (rev (v # acc))) st')
           | _ \<Rightarrow> None)
      | FObj acc k # st' \<Rightarrow>
          (case t of
             TComma \<Rightarrow> Some (PKey (AList.update k v acc) st')
           | TRBrace \<Rightarrow> Some (PAfter (PyDict (AList.update k v acc)) st')
           | _ \<Rightarrow> None))"

definition step :: "pstate \<Rightarrow> token \<Rightarrow> pstate option" where
  "step s t =
     (case s of
        PValue st \<Rightarrow> begin_value st t
      | PArrFirst st \<Rightarrow>
          (if t = TRBrack then Some (PAfter (PyList []) st) else begin_value (FArr [] # st) t)
      | PObjFirst st \<Rightarrow>
          (case t of
             TRBrace \<Rightarrow> Some (PAfter (PyDict []) st)
           | TStr k \<Rightarrow> Some (PColon [] k st)
           | _ \<Rightarrow> None)
      | PKey acc st \<Rightarrow> (case t of TStr k \<Rightarrow> Some (PColon acc k st) | _ \<Rightarrow> None)
      | PColon acc k st \<Rightarrow> (case t of TColon \<Rightarrow> Some (PValue (FObj acc k # st)) | _ \<Rightarrow> None)
      | PAfter v st \<Rightarrow> close_value v st t)"

fun parse :: "pstate \<Rightarrow> token list \<Rightarrow> pyval option" where
  "parse s [] = (case s of PAfter v [] \<Rightarrow> Some v | _ \<Rightarrow> None)"
| "parse s (t # ts) = (case step s t of None \<Rightarrow> None | Some s' \<Rightarrow> parse s' ts)"

text \<open>
  CPython's description of a decode error names the kind and the position of the syntax
  error. \<open>decode_failure\<close> is the description it gives for a text whose first character
  cannot begin a JSON value (prose instead of JSON, or the empty text):
  \<^verbatim>\<open>str(e)\<close> for \<^verbatim>\<open>json.loads("not json")\<close>. The reference decoder reports it for
  every text it rejects, so its description is CPython's for the texts of that kind,
  which are the only rejected texts used below; for a text that goes wrong later CPython
  names another kind or position. The generator only interpolates the description.
\<close>

definition decode_failure :: string where
  "decode_failure = ''Expecting value: line 1 column 1 (char 0)''"

definition json_loads :: "string option \<Rightarrow> loads_result" where
  "json_loads s =
     (case s of
        None \<Rightarrow> OtherException ''the JSON object must be str, bytes or bytearray, not NoneType''
      | Some text \<Rightarrow>
          (case lex LStart text of
             None \<Rightarrow> JSONDecodeError decode_failure
           | Some ts \<Rightarrow>
               (case parse (PValue []) ts of
                  None \<Rightarrow> JSONDecodeError decode_failure
                | Some v \<Rightarrow> Decoded v)))"


section \<open>Configuration and the provider client\<close>

text \<open>
  Strings are byte strings in UTF-8: a character outside ASCII is written as its bytes.
  \<open>str_nat\<close> and \<open>str_int\<close> are Python's \<^verbatim>\<open>str\<close> on integers, used by the
  f-strings.
\<close>

function str_nat :: "nat \<Rightarrow> string" where
  "str_nat n =
     (if n < 10 then [char_of (48 + n)] else str_nat (n div 10) @ [char_of (48 + n mod 10)])"
  by pat_completeness auto
termination
  by (relation "measure id") auto

declare str_nat.simps [simp del]

definition str_int :: "int \<Rightarrow> string" where
  "str_int i = (if i < 0 then CHR ''-'' # str_nat (nat (- i)) else str_nat (nat i))"

definition MAX_RETRIES :: nat where
  "MAX_RETRIES = 5"

definition INITIAL_DELAY :: nat where
  "INITIAL_DELAY = 1"

text \<open>
  \<^verbatim>\<open>ITINERARY_SCHEMA\<close> as data. A field the source leaves unset (\<^verbatim>\<open>description\<close>,
  \<^verbatim>\<open>items\<close>) is \<open>None\<close>; unset \<^verbatim>\<open>properties\<close> and \<^verbatim>\<open>required\<close> are empty lists.
\<close>

datatype schema_type = ARRAY | OBJECT | INTEGER | STRING | NUMBER

datatype schema =
  Schema (stype: schema_type) (description: "string option") (items: "schema option")
    (properties: "(string \<times> schema) list") (required: "string list")

definition ITINERARY_SCHEMA :: schema where
  "ITINERARY_SCHEMA =
     Schema ARRAY (Some ''A list of daily itinerary plans.'')
       (Some (Schema OBJECT None None
          [(''day'', Schema INTEGER (Some ''The day number, starting from 1.'') None [] []),
           (''theme'', Schema STRING
              (Some ''A short, catchy theme for the day (e.g., 'Historical Walking Tour', 'Cheap Eats Day').'')
              None [] []),
           (''plan'', Schema ARRAY (Some ''List of activities for the day.'')
              (Some (Schema OBJECT None None
                 [(''time'', Schema STRING
                     (Some ''Time slot (e.g., 'Morning', 'Lunch', 'Afternoon', 'Evening').'')
                     None [] []),
                  (''activity'', Schema STRING (Some ''The specific activity or location.'')
                     None [] []),
                  (''estimated_cost_inr'', Schema NUMBER
                     (Some ''Estimated cost for the activity in Indian Rupee (INR) (use 0 for free activities).'')
                     None [] [])]
                 [''time'', ''activity'', ''estimated_cost_inr'']))
              [] []),
           (''efficiency_tip'', Schema STRING
              (Some ''A practical, budget-focused tip for minimizing travel time or cost, focusing on walking/public transport.'')
              None [] [])]
          [''day'', ''theme'', ''plan'', ''efficiency_tip'']))
       [] []"

record generation_config =
  system_instruction :: string
  response_mime_type :: "string option"
  response_schema :: "schema option"

record gen_request =
  model :: string
  contents :: "string list"
  config :: generation_config

record api_content =
  content_role :: string
  parts :: "string list"

record chat_request =
  chat_model :: string
  chat_contents :: "api_content list"
  chat_config :: generation_config

text \<open>
  One call of \<^verbatim>\<open>models.generate_content\<close>, with the reading of the response's
  \<^verbatim>\<open>text\<close>, either raises an \<^verbatim>\<open>Exception\<close> (\<open>Raises\<close>, with \<^verbatim>\<open>str(e)\<close>) or
  gives a text that is a string or \<^verbatim>\<open>None\<close>. Exceptions outside \<^verbatim>\<open>Exception\<close>
  (a keyboard interrupt) are not modelled.

  A stream of \<^verbatim>\<open>models.generate_content_stream\<close> yields its chunks in order and
  then either ends or raises (\<open>failure\<close>); a call that fails at once is a stream with no
  chunks and a failure. A chunk's \<^verbatim>\<open>text\<close> is a string or \<^verbatim>\<open>None\<close>.
\<close>

datatype api_result =
    Raises string
  | Response "string option"

record chunk =
  chunk_text :: "string option"

record stream =
  chunks :: "chunk list"
  failure :: "string option"

text \<open>
  The provider is outside the program: \<open>generate_content cl rq n\<close> is its answer to
  request \<open>rq\<close> when \<open>n\<close> calls were made before in the same run.
\<close>

record client =
  generate_content :: "gen_request \<Rightarrow> nat \<Rightarrow> api_result"
  generate_content_stream :: "chat_request \<Rightarrow> stream"

text \<open>
  Module initialisation. \<open>environ\<close> is the process environment, \<open>fallback\<close> the key
  written into the source, \<open>Client\<close> the constructor \<^verbatim>\<open>genai.Client\<close>, which may raise.
  The result is \<^verbatim>\<open>GEMINI_CLIENT\<close> and the warning shown, if any.
\<close>

definition API_KEY :: "(string \<rightharpoonup> string) \<Rightarrow> string \<Rightarrow> string" where
  "API_KEY environ fallback =
     (case environ ''GEMINI_API_KEY'' of Some k \<Rightarrow> k | None \<Rightarrow> fallback)"

definition init_client ::
  "string \<Rightarrow> (string \<Rightarrow> string + client) \<Rightarrow> client option \<times> string option" where
  "init_client api_key Client =
     (if api_key \<noteq> [] then
        (case Client api_key of
           Inr c \<Rightarrow> (Some c, None)
         | Inl e \<Rightarrow>
             (None, Some (''Error initializing Gemini client: '' @ e
                            @ ''. AI features will be disabled.'')))
      else (None, None))"

section \<open>The structured generator\<close>

datatype event =
    GenerateContent gen_request
  | Sleep nat

definition rupee :: string where
  "rupee = [CHR 0xE2, CHR 0x82, CHR 0xB9]"

definition itinerary_system_instruction :: string where
  "itinerary_system_instruction =
     ''You are a World-Class Budget Student Travel Expert and Route Planner. ''
     @ ''Your goal is to create a detailed, efficient, and fun travel plan for a student with limited funds. ''
     @ ''All suggestions MUST prioritize free or low-cost activities (under '' @ rupee @ ''500 INR). ''
     @ ''You must return the response as a valid JSON object matching the provided schema. ''
     @ ''Provide specific cost estimates for each activity in **Indian Rupee (INR)**. ''
     @ ''For the 'efficiency_tip', focus on grouping nearby locations to minimize travel or suggesting budget public transport passes.''"

definition user_query :: "string \<Rightarrow> int \<Rightarrow> string \<Rightarrow> string" where
  "user_query destination days interests =
     ''Generate a '' @ str_int days @ ''-day travel itinerary for a trip to '' @ destination @ ''. ''
     @ ''The total budget is restricted (focus on lowest costs). ''
     @ ''The student is interested in: '' @ interests @ ''. ''
     @ ''Ensure the plan is efficient to follow, grouping activities by location.''"

definition itinerary_request :: "string \<Rightarrow> int \<Rightarrow> string \<Rightarrow> gen_request" where
  "itinerary_request destination days interests =
     \<lparr>model = ''gemini-2.5-flash'',
      contents = [user_query destination days interests],
      config = \<lparr>system_instruction = itinerary_system_instruction,
                response_mime_type = Some ''application/json'',
                response_schema = Some ITINERARY_SCHEMA\<rparr>\<rparr>"

definition connection_error :: "nat \<Rightarrow> string \<Rightarrow> string" where
  "connection_error attempt e =
     ''Gemini API connection error (Attempt '' @ str_nat (attempt + 1) @ ''): '' @ e"

definition format_error :: "nat \<Rightarrow> string \<Rightarrow> string" where
  "format_error attempt e =
     ''AI response format error (Attempt '' @ str_nat (attempt + 1)
     @ ''): Failed to parse JSON response. Details: '' @ e"

definition success_message :: string where
  "success_message = ''Itinerary generated successfully!''"

definition not_initialized_message :: string where
  "not_initialized_message = ''Error: Gemini client is not initialized. Check API Key.''"

definition failure_message :: "string \<Rightarrow> string" where
  "failure_message last_error =
     ''Failed to generate itinerary after multiple retries. Last known error: '' @ last_error"

text \<open>
  The body of the \<^verbatim>\<open>try\<close> of one attempt, when \<open>n\<close> calls were made before:
  \<open>Inr\<close> is the value returned at once, \<open>Inl\<close> the new \<^verbatim>\<open>last_error\<close>. The inner
  handler catches \<^verbatim>\<open>json.JSONDecodeError\<close> only; everything else raised by the call
  or by the decoder reaches the outer handler.
\<close>

definition attempt_body ::
  "(string option \<Rightarrow> loads_result) \<Rightarrow> client \<Rightarrow> gen_request \<Rightarrow> nat \<Rightarrow> nat \<Rightarrow> string + pyval" where
  "attempt_body loads cl rq attempt n =
     (case generate_content cl rq n of
        Raises e \<Rightarrow> Inl (connection_error attempt e)
      | Response text \<Rightarrow>
          (case loads text of
             Decoded itinerary_json \<Rightarrow> Inr itinerary_json
           | JSONDecodeError e \<Rightarrow> Inl (format_error attempt e)
           | OtherException e \<Rightarrow> Inl (connection_error attempt e)))"

definition count_calls :: "event list \<Rightarrow> nat" where
  "count_calls tr = length (filter (\<lambda>ev. case ev of GenerateContent _ \<Rightarrow> True | Sleep _ \<Rightarrow> False) tr)"

text \<open>
  The loop \<^verbatim>\<open>for attempt in range(MAX_RETRIES)\<close> over the remaining attempt numbers,
  with the current \<^verbatim>\<open>last_error\<close> and the effects so far (provider calls and
  \<^verbatim>\<open>time.sleep\<close> delays, in order). It returns the pair the function returns and the
  effects of the whole run.
\<close>

fun retry_loop ::
  "(string option \<Rightarrow> loads_result) \<Rightarrow> client \<Rightarrow> gen_request \<Rightarrow> nat list \<Rightarrow> string
     \<Rightarrow> event list \<Rightarrow> (string \<times> pyval) \<times> event list" where
  "retry_loop loads cl rq [] last_error tr = ((failure_message last_error, PyNone), tr)"
| "retry_loop loads cl rq (attempt # rest) last_error tr =
     (case attempt_body loads cl rq attempt (count_calls tr) of
        Inr itinerary_json \<Rightarrow> ((success_message, itinerary_json), tr @ [GenerateContent rq])
      | Inl err \<Rightarrow>
          retry_loop loads cl rq rest err
            (if attempt < MAX_RETRIES - 1
             then tr @ [GenerateContent rq, Sleep (INITIAL_DELAY * 2 ^ attempt)]
             else tr @ [GenerateContent rq]))"

definition generate_student_itinerary ::
  "(string option \<Rightarrow> loads_result) \<Rightarrow> client option \<Rightarrow> string \<Rightarrow> int \<Rightarrow> string
     \<Rightarrow> (string \<times> pyval) \<times> event list" where
  "generate_student_itinerary loads GEMINI_CLIENT destination days interests =
     (case GEMINI_CLIENT of
        None \<Rightarrow> ((not_initialized_message, PyNone), [])
      | Some cl \<Rightarrow>
          retry_loop loads cl (itinerary_request destination days interests)
            [0..<MAX_RETRIES] ''Unknown error occurred before first API call.'' [])"

section \<open>The chat page\<close>

record message =
  role :: string
  content :: string

text \<open>
  Of \<^verbatim>\<open>st.session_state\<close> the chat page reads and writes the key
  \<^verbatim>\<open>"messages"\<close> only, and no other page touches that key; \<open>None\<close> is the absent key.
\<close>

record session_state =
  messages :: "message list option"

datatype ui_event =
    Header string
  | Markdown string
  | ErrorBox string
  | ChatMessage string string
  | Write string
  | GenerateContentStream chat_request
  | WriteStream string

definition speech_balloon :: string where
  "speech_balloon = [CHR 0xF0, CHR 0x9F, CHR 0x92, CHR 0xAC]"

definition police_light :: string where
  "police_light = [CHR 0xF0, CHR 0x9F, CHR 0x9A, CHR 0xA8]"

definition robot :: string where
  "robot = [CHR 0xF0, CHR 0x9F, CHR 0xA4, CHR 0x96]"

definition walker :: string where
  "walker = [CHR 0xF0, CHR 0x9F, CHR 0x9A, CHR 0xB6]"

definition unavailable_message :: string where
  "unavailable_message =
     police_light @ '' Gemini Chat is unavailable. Check your API Key configuration.''"

definition greeting :: message where
  "greeting =
     \<lparr>role = ''model'',
      content = ''Hello! I'm a helpful AI assistant. How can I help you plan your next budget trip or answer a general question?''\<rparr>"

definition chat_system_instruction :: string where
  "chat_system_instruction =
     ''You are a friendly, helpful AI assistant. You specialize in budget travel, itinerary planning, ''
     @ ''and general knowledge. Keep responses concise, supportive, and informative.''"

definition get_api_contents :: "message list \<Rightarrow> api_content list" where
  "get_api_contents history = map (\<lambda>m. \<lparr>content_role = role m, parts = [content m]\<rparr>) history"

definition chat_request_of :: "message list \<Rightarrow> chat_request" where
  "chat_request_of history =
     \<lparr>chat_model = ''gemini-2.5-flash'',
      chat_contents = get_api_contents history,
      chat_config = \<lparr>system_instruction = chat_system_instruction,
                     response_mime_type = None,
                     response_schema = None\<rparr>\<rparr>"

text \<open>
  The generator expression \<^verbatim>\<open>(chunk.text for chunk in response_stream if chunk.text)\<close>:
  a chunk whose text is \<^verbatim>\<open>None\<close> or empty is skipped. \<^verbatim>\<open>st.write_stream\<close> shows
  each string as it arrives and returns their concatenation.
\<close>

definition has_text :: "chunk \<Rightarrow> bool" where
  "has_text c = (case chunk_text c of None \<Rightarrow> False | Some t \<Rightarrow> t \<noteq> [])"

definition stream_texts :: "chunk list \<Rightarrow> string list" where
  "stream_texts cs =
     map (\<lambda>c. case chunk_text c of None \<Rightarrow> [] | Some t \<Rightarrow> t) (filter has_text cs)"

definition write_stream :: "string list \<Rightarrow> string" where
  "write_stream texts = concat texts"

definition show_message :: "message \<Rightarrow> ui_event list" where
  "show_message msg =
     [ChatMessage (role msg) (if role msg = ''model'' then robot else walker),
      Write (content msg)]"

text \<open>
  One run of the page: the client, what \<^verbatim>\<open>st.chat_input\<close> returned (\<open>None\<close> when
  nothing was submitted) and the session state; the result is the new session state and
  what was shown and called, in order. When the stream raises, the chunks before the
  failure were shown already, and the \<^verbatim>\<open>except\<close> branch appends the error message.
\<close>

definition render_chat_page ::
  "client option \<Rightarrow> string option \<Rightarrow> session_state \<Rightarrow> session_state \<times> ui_event list" where
  "render_chat_page GEMINI_CLIENT chat_input ss =
     (let ev0 = [Header (speech_balloon @ '' AI Chat: Ask Anything!''), Markdown ''---''] in
      case GEMINI_CLIENT of
        None \<Rightarrow> (ss, ev0 @ [ErrorBox unavailable_message])
      | Some cl \<Rightarrow>
          (let msgs0 = (case messages ss of None \<Rightarrow> [greeting] | Some ms \<Rightarrow> ms);
               ev1 = ev0 @ concat (map show_message msgs0)
           in case chat_input of
                None \<Rightarrow> (ss\<lparr>messages := Some msgs0\<rparr>, ev1)
              | Some prompt \<Rightarrow>
                  if prompt = [] then (ss\<lparr>messages := Some msgs0\<rparr>, ev1)
                  else
                    (let msgs1 = msgs0 @ [\<lparr>role = ''user'', content = prompt\<rparr>];
                         ev2 = ev1 @ [ChatMessage ''user'' walker, Write prompt,
                                      ChatMessage ''assistant'' robot];
                         rq = chat_request_of msgs1;
                         response_stream = generate_content_stream cl rq;
                         texts = stream_texts (chunks response_stream);
                         ev3 = ev2 @ [GenerateContentStream rq] @ map WriteStream texts
                     in case failure response_stream of
                          None \<Rightarrow>
                            (let full_response = write_stream texts
                             in (ss\<lparr>messages :=
                                       Some (msgs1 @ [\<lparr>role = ''model'', content = full_response\<rparr>])\<rparr>,
                                 ev3))
                        | Some e \<Rightarrow>
                            (let error_message = ''An error occurred: '' @ e
                             in (ss\<lparr>messages :=
                                       Some (msgs1 @ [\<lparr>role = ''model'', content = error_message\<rparr>])\<rparr>,
                                 ev3 @ [ErrorBox error_message])))))"

text \<open>
  A session: the page is run once per element of the list, each time with the client and
  the submitted text of that run, from the state without the key \<^verbatim>\<open>"messages"\<close>.
\<close>

definition run_session :: "(client option \<times> string option) list \<Rightarrow> session_state" where
  "run_session inputs =
     foldl (\<lambda>ss (cl, chat_input). fst (render_chat_page cl chat_input ss))
       \<lparr>messages = None\<rparr> inputs"

section \<open>Well-formed itineraries\<close>

text \<open>
  The shape the specification asks of an itinerary, with the field names of
  \<^verbatim>\<open>ITINERARY_SCHEMA\<close>: a non-empty list of day objects; each day has a positive integer
  \<^verbatim>\<open>day\<close>, a string \<^verbatim>\<open>theme\<close>, a string \<^verbatim>\<open>efficiency_tip\<close> and a non-empty list
  \<^verbatim>\<open>plan\<close>; each activity has strings \<^verbatim>\<open>time\<close> and \<^verbatim>\<open>activity\<close> and a number
  \<^verbatim>\<open>estimated_cost_inr\<close> that is not negative; the day numbers are distinct. This is
  the property claimed of the result, not code of the program.
\<close>

fun is_str :: "pyval option \<Rightarrow> bool" where
  "is_str (Some (PyStr s)) = True"
| "is_str _ = False"

fun is_nonneg_number :: "pyval option \<Rightarrow> bool" where
  "is_nonneg_number (Some (PyInt n)) = (0 \<le> n)"
| "is_nonneg_number (Some (PyFloat m e)) = (0 \<le> m)"
| "is_nonneg_number _ = False"

fun is_positive_int :: "pyval option \<Rightarrow> bool" where
  "is_positive_int (Some (PyInt n)) = (0 < n)"
| "is_positive_int _ = False"

definition valid_activity :: "pyval \<Rightarrow> bool" where
  "valid_activity a =
     (case a of
        PyDict kv \<Rightarrow>
          is_str (map_of kv ''time'') \<and> is_str (map_of kv ''activity'')
          \<and> is_nonneg_number (map_of kv ''estimated_cost_inr'')
      | _ \<Rightarrow> False)"

definition valid_plan :: "pyval option \<Rightarrow> bool" where
  "valid_plan p =
     (case p of
        Some (PyList acts) \<Rightarrow> acts \<noteq> [] \<and> list_all valid_activity acts
      | _ \<Rightarrow> False)"

definition valid_day :: "pyval \<Rightarrow> bool" where
  "valid_day d =
     (case d of
        PyDict kv \<Rightarrow>
          is_positive_int (map_of kv ''day'') \<and> is_str (map_of kv ''theme'')
          \<and> valid_plan (map_of kv ''plan'') \<and> is_str (map_of kv ''efficiency_tip'')
      | _ \<Rightarrow> False)"

definition day_number :: "pyval \<Rightarrow> pyval option" where
  "day_number d = (case d of PyDict kv \<Rightarrow> map_of kv ''day'' | _ \<Rightarrow> None)"

definition days_well_formed :: "pyval list \<Rightarrow> bool" where
  "days_well_formed ds \<longleftrightarrow> list_all valid_day ds \<and> distinct (map day_number ds)"

definition well_formed_itinerary :: "pyval \<Rightarrow> bool" where
  "well_formed_itinerary v =
     (case v of PyList ds \<Rightarrow> ds \<noteq> [] \<and> days_well_formed ds | _ \<Rightarrow> False)"

section \<open>Notions used to state the properties\<close>

text \<open>
  \<open>outcome loads cl rq i\<close> is how attempt \<open>i\<close> (counted from 0) of a run ends: every
  attempt makes exactly one provider call, so attempt \<open>i\<close> is the run's call number
  \<open>i\<close>. \<open>segment\<close> is the effect of one failed attempt of the loop.
  \<open>backoff_schedule rq m\<close> is the effect sequence of \<open>m\<close> attempts as the specification
  describes it: \<open>m\<close> provider calls, a delay of \<open>INITIAL_DELAY * 2 ^ i\<close> between call
  \<open>i\<close> and call \<open>i + 1\<close>, and nothing after the last call.
  \<open>every_attempt_fails loads cl rq\<close> says that none of the \<open>MAX_RETRIES\<close> calls
  returns a text that decodes: each call raises, or its text makes the decoder raise.
  \<open>sleeps\<close> are the delays of an effect sequence, in order.
\<close>

definition outcome ::
  "(string option \<Rightarrow> loads_result) \<Rightarrow> client \<Rightarrow> gen_request \<Rightarrow> nat \<Rightarrow> string + pyval" where
  "outcome loads cl rq i = attempt_body loads cl rq i i"

definition segment :: "gen_request \<Rightarrow> nat \<Rightarrow> event list" where
  "segment rq a =
     (if a < MAX_RETRIES - 1 then [GenerateContent rq, Sleep (INITIAL_DELAY * 2 ^ a)]
      else [GenerateContent rq])"

definition backoff_schedule :: "gen_request \<Rightarrow> nat \<Rightarrow> event list" where
  "backoff_schedule rq m =
     concat (map (\<lambda>i. if i + 1 < m then [GenerateContent rq, Sleep (INITIAL_DELAY * 2 ^ i)]
                       else [GenerateContent rq]) [0..<m])"

definition every_attempt_fails ::
  "(string option \<Rightarrow> loads_result) \<Rightarrow> client \<Rightarrow> gen_request \<Rightarrow> bool" where
  "every_attempt_fails loads cl rq \<longleftrightarrow>
     (\<forall>j<MAX_RETRIES.
        \<not> (\<exists>text v. generate_content cl rq j = Response text \<and> loads text = Decoded v))"

definition sleeps :: "event list \<Rightarrow> nat list" where
  "sleeps tr = concat (map (\<lambda>ev. case ev of Sleep d \<Rightarrow> [d] | GenerateContent _ \<Rightarrow> []) tr)"

text \<open>
  Sample providers for the concrete runs: one that answers the calls of a run from a
  list, and one that answers a chat request with a given stream. \<open>valid_request\<close> is
  what the form accepts.
\<close>

definition idle_stream :: "chat_request \<Rightarrow> stream" where
  "idle_stream rq = \<lparr>chunks = [], failure = None\<rparr>"

definition scripted_provider :: "api_result list \<Rightarrow> client" where
  "scripted_provider rs =
     \<lparr>generate_content = (\<lambda>rq n. if n < length rs then rs ! n else Raises ''connection refused''),
      generate_content_stream = idle_stream\<rparr>"

definition streaming_provider :: "stream \<Rightarrow> client" where
  "streaming_provider s =
     \<lparr>generate_content = (\<lambda>rq n. Raises ''connection refused''),
      generate_content_stream = (\<lambda>rq. s)\<rparr>"

definition valid_request :: "string \<Rightarrow> int \<Rightarrow> string \<Rightarrow> bool" where
  "valid_request destination days interests \<longleftrightarrow>
     destination \<noteq> [] \<and> 1 \<le> days \<and> days \<le> 14 \<and> interests \<noteq> []"

definition current_log :: "session_state \<Rightarrow> message list" where
  "current_log ss = (case messages ss of None \<Rightarrow> [greeting] | Some ms \<Rightarrow> ms)"

text \<open>
  Sample response texts with the values they decode to: a well-formed itinerary of three
  days, a single day whose \<^verbatim>\<open>plan\<close> is empty, and a single day object that has
  only its \<^verbatim>\<open>day\<close>. Two sample streams for the chat page: one that delivers
  \<^verbatim>\<open>Hel\<close>, two chunks without text and \<^verbatim>\<open>lo!\<close>; one that fails after its first
  chunk. \<open>stream_requests\<close> are the streaming calls among the effects of a page run.
\<close>

definition goa_text :: string where
  "goa_text =
     ''[{\"day\": 1, \"theme\": \"Beach Day\", \"plan\": [{\"time\": \"Morning\", \"activity\": \"Baga Beach walk\", \"estimated_cost_inr\": 0}], \"efficiency_tip\": \"Walk along the shore\"}, ''
     @ ''{\"day\": 2, \"theme\": \"Cheap Eats\", \"plan\": [{\"time\": \"Lunch\", \"activity\": \"Fish thali\", \"estimated_cost_inr\": 150}], \"efficiency_tip\": \"Use the local bus\"}, ''
     @ ''{\"day\": 3, \"theme\": \"Old Goa\", \"plan\": [{\"time\": \"Afternoon\", \"activity\": \"Basilica visit\", \"estimated_cost_inr\": 0}], \"efficiency_tip\": \"Rent a bicycle\"}]''"

definition goa_itinerary :: pyval where
  "goa_itinerary =
     PyList
      [PyDict [(''day'', PyInt 1), (''theme'', PyStr ''Beach Day''),
         (''plan'', PyList [PyDict [(''time'', PyStr ''Morning''),
            (''activity'', PyStr ''Baga Beach walk''), (''estimated_cost_inr'', PyInt 0)]]),
         (''efficiency_tip'', PyStr ''Walk along the shore'')],
       PyDict [(''day'', PyInt 2), (''theme'', PyStr ''Cheap Eats''),
         (''plan'', PyList [PyDict [(''time'', PyStr ''Lunch''),
            (''activity'', PyStr ''Fish thali''), (''estimated_cost_inr'', PyInt 150)]]),
         (''efficiency_tip'', PyStr ''Use the local bus'')],
       PyDict [(''day'', PyInt 3), (''theme'', PyStr ''Old Goa''),
         (''plan'', PyList [PyDict [(''time'', PyStr ''Afternoon''),
            (''activity'', PyStr ''Basilica visit''), (''estimated_cost_inr'', PyInt 0)]]),
         (''efficiency_tip'', PyStr ''Rent a bicycle'')]]"

definition empty_plan_text :: string where
  "empty_plan_text =
     ''[{\"day\": 1, \"theme\": \"Beach Day\", \"plan\": [], \"efficiency_tip\": \"Walk along the shore\"}]''"

definition empty_plan_payload :: pyval where
  "empty_plan_payload =
     PyList [PyDict [(''day'', PyInt 1), (''theme'', PyStr ''Beach Day''), (''plan'', PyList []),
                     (''efficiency_tip'', PyStr ''Walk along the shore'')]]"

definition missing_fields_text :: string where
  "missing_fields_text = ''[{\"day\": 1}]''"

definition missing_fields_payload :: pyval where
  "missing_fields_payload = PyList [PyDict [(''day'', PyInt 1)]]"

definition hello_stream :: stream where
  "hello_stream =
     \<lparr>chunks = [\<lparr>chunk_text = Some ''Hel''\<rparr>, \<lparr>chunk_text = None\<rparr>, \<lparr>chunk_text = Some []\<rparr>,
                \<lparr>chunk_text = Some ''lo!''\<rparr>],
      failure = None\<rparr>"

definition broken_stream :: stream where
  "broken_stream = \<lparr>chunks = [\<lparr>chunk_text = Some ''Hel''\<rparr>], failure = Some ''503 UNAVAILABLE''\<rparr>"

definition stream_requests :: "ui_event list \<Rightarrow> chat_request list" where
  "stream_requests evs =
     concat (map (\<lambda>ev. case ev of GenerateContentStream rq \<Rightarrow> [rq] | _ \<Rightarrow> []) evs)"

section \<open>The retry loop: auxiliary lemmas\<close>

lemma count_calls_append [simp]: "count_calls (xs @ ys) = count_calls xs + count_calls ys"
  by (simp add: count_calls_def)

lemma count_calls_simps [simp]:
  "count_calls [] = 0"
  "count_calls (GenerateContent rq # tr) = Suc (count_calls tr)"
  "count_calls (Sleep d # tr) = count_calls tr"
  by (simp_all add: count_calls_def)

lemma count_calls_segment [simp]: "count_calls (segment rq a) = 1"
  by (simp add: segment_def)

lemma retry_loop_all_fail:
  assumes "\<forall>i<length as. \<exists>e. attempt_body loads cl rq (as ! i) (count_calls tr + i) = Inl e"
  shows "retry_loop loads cl rq as le tr =
           ((failure_message
               (if as = [] then le
                else projl (attempt_body loads cl rq (last as) (count_calls tr + length as - 1))),
             PyNone),
            tr @ concat (map (segment rq) as))"
  using assms
proof (induction as arbitrary: le tr)
  case Nil
  then show ?case by simp
next
  case (Cons a as)
  from Cons.prems obtain e where e: "attempt_body loads cl rq a (count_calls tr) = Inl e"
    by fastforce
  let ?tr' = "tr @ segment rq a"
  have step: "retry_loop loads cl rq (a # as) le tr = retry_loop loads cl rq as e ?tr'"
    using e by (simp add: segment_def)
  have "\<forall>i<length as. \<exists>e. attempt_body loads cl rq (as ! i) (count_calls ?tr' + i) = Inl e"
  proof (intro allI impI)
    fix i assume "i < length as"
    then have "Suc i < length (a # as)" by simp
    with Cons.prems have "\<exists>e. attempt_body loads cl rq ((a # as) ! Suc i) (count_calls tr + Suc i) = Inl e"
      by blast
    then show "\<exists>e. attempt_body loads cl rq (as ! i) (count_calls ?tr' + i) = Inl e"
      by simp
  qed
  from Cons.IH [OF this, of e] step e show ?case
    by (cases as) (simp_all)
qed

lemma retry_loop_success:
  assumes "j < length as"
    and "\<forall>i<j. \<exists>e. attempt_body loads cl rq (as ! i) (count_calls tr + i) = Inl e"
    and "attempt_body loads cl rq (as ! j) (count_calls tr + j) = Inr v"
  shows "retry_loop loads cl rq as le tr =
           ((success_message, v),
            tr @ concat (map (segment rq) (take j as)) @ [GenerateContent rq])"
  using assms
proof (induction as arbitrary: j le tr)
  case Nil
  then show ?case by simp
next
  case (Cons a as)
  show ?case
  proof (cases j)
    case 0
    with Cons.prems show ?thesis by simp
  next
    case (Suc j')
    from Cons.prems Suc obtain e where e: "attempt_body loads cl rq a (count_calls tr) = Inl e"
      by fastforce
    let ?tr' = "tr @ segment rq a"
    have step: "retry_loop loads cl rq (a # as) le tr = retry_loop loads cl rq as e ?tr'"
      using e by (simp add: segment_def)
    have j': "j' < length as" using Cons.prems Suc by simp
    have fails: "\<forall>i<j'. \<exists>e. attempt_body loads cl rq (as ! i) (count_calls ?tr' + i) = Inl e"
    proof (intro allI impI)
      fix i assume "i < j'"
      then have "Suc i < j" using Suc by simp
      with Cons.prems have "\<exists>e. attempt_body loads cl rq ((a # as) ! Suc i) (count_calls tr + Suc i) = Inl e"
        by blast
      then show "\<exists>e. attempt_body loads cl rq (as ! i) (count_calls ?tr' + i) = Inl e"
        by simp
    qed
    have ok: "attempt_body loads cl rq (as ! j') (count_calls ?tr' + j') = Inr v"
      using Cons.prems(3) Suc by simp
    from Cons.IH [OF j' fails ok, of e] step Suc show ?thesis by simp
  qed
qed

lemma concat_map_cong:
  "(\<And>x. x \<in> set xs \<Longrightarrow> f x = g x) \<Longrightarrow> concat (map f xs) = concat (map g xs)"
  by (induction xs) auto

lemma MAX_RETRIES_pos: "0 < MAX_RETRIES"
  by (simp add: MAX_RETRIES_def)

lemma segments_schedule_full:
  "concat (map (segment rq) [0..<MAX_RETRIES]) = backoff_schedule rq MAX_RETRIES"
  unfolding backoff_schedule_def
  by (rule concat_map_cong) (auto simp: segment_def)

lemma segments_schedule_prefix:
  assumes "j < MAX_RETRIES"
  shows "concat (map (segment rq) (take j [0..<MAX_RETRIES])) @ [GenerateContent rq]
         = backoff_schedule rq (Suc j)"
proof -
  have t: "take j [0..<MAX_RETRIES] = [0..<j]"
    using assms by (simp add: take_upt)
  have "concat (map (segment rq) [0..<j]) =
        concat (map (\<lambda>i. if i + 1 < Suc j then [GenerateContent rq, Sleep (INITIAL_DELAY * 2 ^ i)]
                  else [GenerateContent rq]) [0..<j])"
    using assms by (intro concat_map_cong) (auto simp: segment_def)
  then show ?thesis unfolding backoff_schedule_def t by simp
qed

lemma count_calls_concat_single:
  "(\<And>x. x \<in> set xs \<Longrightarrow> count_calls (f x) = 1) \<Longrightarrow> count_calls (concat (map f xs)) = length xs"
  by (induction xs) auto

lemma count_calls_schedule [simp]: "count_calls (backoff_schedule rq m) = m"
  unfolding backoff_schedule_def
  by (subst count_calls_concat_single) auto

lemma sleeps_append [simp]: "sleeps (xs @ ys) = sleeps xs @ sleeps ys"
  by (simp add: sleeps_def)

lemma backoff_schedule_Suc:
  "backoff_schedule rq (Suc (Suc m)) =
     backoff_schedule rq (Suc m) @ [Sleep (INITIAL_DELAY * 2 ^ m), GenerateContent rq]"
proof -
  have "concat (map (\<lambda>i. if i + 1 < Suc (Suc m) then [GenerateContent rq, Sleep (INITIAL_DELAY * 2 ^ i)]
                  else [GenerateContent rq]) [0..<m])
        = concat (map (\<lambda>i. if i + 1 < Suc m then [GenerateContent rq, Sleep (INITIAL_DELAY * 2 ^ i)]
                  else [GenerateContent rq]) [0..<m])"
    by (intro concat_map_cong) auto
  then show ?thesis unfolding backoff_schedule_def by simp
qed

lemma backoff_schedule_0 [simp]: "backoff_schedule rq 0 = []"
  by (simp add: backoff_schedule_def)

lemma backoff_schedule_1 [simp]: "backoff_schedule rq (Suc 0) = [GenerateContent rq]"
  by (simp add: backoff_schedule_def)

lemma sleeps_schedule:
  "sleeps (backoff_schedule rq m) = map (\<lambda>i. INITIAL_DELAY * 2 ^ i) [0..<m - 1]"
proof (cases m)
  case 0
  then show ?thesis by (simp add: sleeps_def)
next
  case (Suc k)
  have "sleeps (backoff_schedule rq (Suc k)) = map (\<lambda>i. INITIAL_DELAY * 2 ^ i) [0..<k]"
    by (induction k) (simp_all add: backoff_schedule_Suc, simp_all add: sleeps_def)
  with Suc show ?thesis by simp
qed

lemma last_schedule: "0 < m \<Longrightarrow> last (backoff_schedule rq m) = GenerateContent rq"
  by (cases m; cases "m - 1") (simp_all add: backoff_schedule_Suc)

lemma outcome_dichotomy:
  "(\<forall>i<n. \<exists>e. outcome loads cl rq i = Inl e)
   \<or> (\<exists>j<n. (\<forall>i<j. \<exists>e. outcome loads cl rq i = Inl e) \<and> (\<exists>v. outcome loads cl rq j = Inr v))"
proof (induction n)
  case 0
  then show ?case by simp
next
  case (Suc n)
  then show ?case
  proof
    assume all: "\<forall>i<n. \<exists>e. outcome loads cl rq i = Inl e"
    show ?thesis
    proof (cases "outcome loads cl rq n")
      case (Inl e)
      with all have "\<forall>i<Suc n. \<exists>e. outcome loads cl rq i = Inl e"
        by (auto simp: less_Suc_eq)
      then show ?thesis by blast
    next
      case (Inr v)
      with all show ?thesis by blast
    qed
  next
    assume "\<exists>j<n. (\<forall>i<j. \<exists>e. outcome loads cl rq i = Inl e) \<and> (\<exists>v. outcome loads cl rq j = Inr v)"
    then show ?thesis by (meson less_Suc_eq)
  qed
qed

lemma generate_all_fail:
  assumes "\<forall>i<MAX_RETRIES. \<exists>e. outcome loads cl rq i = Inl e"
  shows "retry_loop loads cl rq [0..<MAX_RETRIES] le [] =
           ((failure_message (projl (outcome loads cl rq (MAX_RETRIES - 1))), PyNone),
            backoff_schedule rq MAX_RETRIES)"
proof -
  have "\<forall>i<length [0..<MAX_RETRIES].
          \<exists>e. attempt_body loads cl rq ([0..<MAX_RETRIES] ! i) (count_calls [] + i) = Inl e"
    using assms by (simp add: outcome_def)
  from retry_loop_all_fail [OF this, of le] show ?thesis
    using MAX_RETRIES_pos by (simp add: segments_schedule_full outcome_def)
qed

lemma generate_success:
  assumes "j < MAX_RETRIES"
    and "\<forall>i<j. \<exists>e. outcome loads cl rq i = Inl e"
    and "outcome loads cl rq j = Inr v"
  shows "retry_loop loads cl rq [0..<MAX_RETRIES] le [] =
           ((success_message, v), backoff_schedule rq (Suc j))"
proof -
  have a: "j < length [0..<MAX_RETRIES]" using assms(1) by simp
  have b: "\<forall>i<j. \<exists>e. attempt_body loads cl rq ([0..<MAX_RETRIES] ! i) (count_calls [] + i) = Inl e"
    using assms(1,2) by (simp add: outcome_def)
  have c: "attempt_body loads cl rq ([0..<MAX_RETRIES] ! j) (count_calls [] + j) = Inr v"
    using assms(1,3) by (simp add: outcome_def)
  from retry_loop_success [OF a b c, of le] show ?thesis
    by (simp add: segments_schedule_prefix [OF assms(1)])
qed

lemma outcome_Inr_iff:
  "outcome loads cl rq k = Inr v \<longleftrightarrow>
     (\<exists>text. generate_content cl rq k = Response text \<and> loads text = Decoded v)"
  by (auto simp: outcome_def attempt_body_def split: api_result.splits loads_result.splits)

lemma outcome_Inl_iff:
  "outcome loads cl rq k = Inl err \<longleftrightarrow>
     (\<exists>e. generate_content cl rq k = Raises e \<and> err = connection_error k e)
     \<or> (\<exists>text e. generate_content cl rq k = Response text \<and> loads text = JSONDecodeError e
            \<and> err = format_error k e)
     \<or> (\<exists>text e. generate_content cl rq k = Response text \<and> loads text = OtherException e
            \<and> err = connection_error k e)"
  by (auto simp: outcome_def attempt_body_def split: api_result.splits loads_result.splits)

lemma retry_loop_cases:
  "((\<forall>i<MAX_RETRIES. \<exists>e. outcome loads cl rq i = Inl e)
      \<and> (\<exists>e. outcome loads cl rq (MAX_RETRIES - 1) = Inl e
            \<and> retry_loop loads cl rq [0..<MAX_RETRIES] le [] =
                ((failure_message e, PyNone), backoff_schedule rq MAX_RETRIES)))
   \<or> (\<exists>j<MAX_RETRIES. \<exists>v. (\<forall>i<j. \<exists>e. outcome loads cl rq i = Inl e)
          \<and> outcome loads cl rq j = Inr v
          \<and> retry_loop loads cl rq [0..<MAX_RETRIES] le [] =
                ((success_message, v), backoff_schedule rq (Suc j)))"
  using outcome_dichotomy [of MAX_RETRIES loads cl rq]
proof
  assume all: "\<forall>i<MAX_RETRIES. \<exists>e. outcome loads cl rq i = Inl e"
  then obtain e where e: "outcome loads cl rq (MAX_RETRIES - 1) = Inl e"
    using MAX_RETRIES_pos by (metis diff_less zero_less_one)
  from generate_all_fail [OF all, of le] e all show ?thesis by simp
next
  assume "\<exists>j<MAX_RETRIES. (\<forall>i<j. \<exists>e. outcome loads cl rq i = Inl e)
            \<and> (\<exists>v. outcome loads cl rq j = Inr v)"
  then obtain j v where j: "j < MAX_RETRIES" "\<forall>i<j. \<exists>e. outcome loads cl rq i = Inl e"
    "outcome loads cl rq j = Inr v" by blast
  from generate_success [OF j, of le] j show ?thesis by blast
qed

lemma trace_is_schedule:
  "\<exists>m\<le>MAX_RETRIES. snd (generate_student_itinerary loads c d n i)
       = backoff_schedule (itinerary_request d n i) m"
proof (cases c)
  case None
  then show ?thesis by (auto simp: generate_student_itinerary_def intro: exI [of _ 0])
next
  case (Some cl)
  let ?rq = "itinerary_request d n i"
  from retry_loop_cases [of loads cl ?rq "''Unknown error occurred before first API call.''"]
  show ?thesis
  proof (elim disjE conjE exE)
    fix e assume "retry_loop loads cl ?rq [0..<MAX_RETRIES]
        ''Unknown error occurred before first API call.'' [] =
        ((failure_message e, PyNone), backoff_schedule ?rq MAX_RETRIES)"
    with Some show ?thesis by (auto simp: generate_student_itinerary_def)
  next
    fix j v assume "j < MAX_RETRIES" and "retry_loop loads cl ?rq [0..<MAX_RETRIES]
        ''Unknown error occurred before first API call.'' [] =
        ((success_message, v), backoff_schedule ?rq (Suc j))"
    with Some show ?thesis
      by (auto simp: generate_student_itinerary_def intro!: exI [of _ "Suc j"])
  qed
qed

section \<open>Sample texts and further lemmas\<close>

lemma goa_text_decodes: "json_loads (Some goa_text) = Decoded goa_itinerary"
  by code_simp

lemma goa_itinerary_well_formed: "well_formed_itinerary goa_itinerary"
  by code_simp

lemma empty_plan_text_decodes: "json_loads (Some empty_plan_text) = Decoded empty_plan_payload"
  by code_simp

lemma missing_fields_text_decodes:
  "json_loads (Some missing_fields_text) = Decoded missing_fields_payload"
  by code_simp

lemma not_json_rejected: "json_loads (Some ''not json'') = JSONDecodeError decode_failure"
  by code_simp

lemma null_decodes: "json_loads (Some ''null'') = Decoded PyNone"
  by code_simp

lemma number_decodes: "json_loads (Some ''42'') = Decoded (PyInt 42)"
  by code_simp

lemma empty_list_decodes: "json_loads (Some ''[]'') = Decoded (PyList [])"
  by code_simp

lemma day_object_decodes:
  "json_loads (Some ''{\"day\": 1}'') = Decoded (PyDict [(''day'', PyInt 1)])"
  by code_simp

lemma missing_fields_not_well_formed: "\<not> well_formed_itinerary missing_fields_payload"
  by code_simp

lemma empty_plan_not_well_formed: "\<not> well_formed_itinerary empty_plan_payload"
  by code_simp

lemma messages_differ:
  "failure_message e \<noteq> success_message" "not_initialized_message \<noteq> success_message"
  by (simp_all add: failure_message_def success_message_def not_initialized_message_def)

lemma not_well_formed_None [simp]: "\<not> well_formed_itinerary PyNone"
  by (simp add: well_formed_itinerary_def)

lemma generate_Some:
  "generate_student_itinerary loads (Some cl) d n i =
     retry_loop loads cl (itinerary_request d n i) [0..<MAX_RETRIES]
       ''Unknown error occurred before first API call.'' []"
  by (simp add: generate_student_itinerary_def)

lemma schedule_prefix:
  "0 < m \<Longrightarrow> m \<le> m' \<Longrightarrow> \<exists>rest. backoff_schedule rq m' = backoff_schedule rq m @ rest"
proof (induction m')
  case 0
  then show ?case by simp
next
  case (Suc m')
  show ?case
  proof (cases "m = Suc m'")
    case True
    then show ?thesis by simp
  next
    case False
    with Suc.prems have le: "m \<le> m'" by simp
    with Suc.IH Suc.prems obtain rest where r: "backoff_schedule rq m' = backoff_schedule rq m @ rest"
      by blast
    from le Suc.prems obtain p where p: "m' = Suc p" by (cases m') auto
    show ?thesis unfolding p backoff_schedule_Suc using r p by simp
  qed
qed

lemma generate_first_success:
  assumes "k < MAX_RETRIES"
    and "\<forall>j<k. \<exists>e. outcome loads cl (itinerary_request d n i) j = Inl e"
    and "generate_content cl (itinerary_request d n i) k = Response text"
    and "loads text = Decoded v"
  shows "generate_student_itinerary loads (Some cl) d n i
           = ((success_message, v), backoff_schedule (itinerary_request d n i) (Suc k))"
proof -
  have "outcome loads cl (itinerary_request d n i) k = Inr v"
    using assms(3,4) by (auto simp: outcome_Inr_iff)
  from generate_success [OF assms(1,2) this] show ?thesis
    by (simp add: generate_Some)
qed

lemma single_response_decoded:
  assumes "json_loads (Some t) = Decoded v"
  shows "generate_student_itinerary json_loads (Some (scripted_provider [Response (Some t)])) d n i
           = ((success_message, v), [GenerateContent (itinerary_request d n i)])"
proof -
  let ?cl = "scripted_provider [Response (Some t)]"
  have "generate_content ?cl (itinerary_request d n i) 0 = Response (Some t)"
    by (simp add: scripted_provider_def)
  with generate_first_success [of 0 json_loads ?cl d n i "Some t" v] assms MAX_RETRIES_pos
  show ?thesis by simp
qed

lemma retry_loop_after_failures:
  assumes "Suc k < MAX_RETRIES"
    and "\<forall>j<Suc k. \<exists>e. outcome loads cl rq j = Inl e"
  shows "\<exists>m. Suc (Suc k) \<le> m \<and> m \<le> MAX_RETRIES
            \<and> snd (retry_loop loads cl rq [0..<MAX_RETRIES] le []) = backoff_schedule rq m"
  using retry_loop_cases [of loads cl rq le]
proof (elim disjE conjE exE)
  fix e
  assume "retry_loop loads cl rq [0..<MAX_RETRIES] le []
            = ((failure_message e, PyNone), backoff_schedule rq MAX_RETRIES)"
  with assms(1) show ?thesis
    by (intro exI [of _ MAX_RETRIES]) simp
next
  fix j v
  assume j: "j < MAX_RETRIES" "outcome loads cl rq j = Inr v"
    and r: "retry_loop loads cl rq [0..<MAX_RETRIES] le []
              = ((success_message, v), backoff_schedule rq (Suc j))"
  have "\<not> j < Suc k"
    using assms(2) j(2) by auto
  with j(1) r show ?thesis
    by (intro exI [of _ "Suc j"]) simp
qed

lemma retry_loop_same_outcomes:
  assumes "\<forall>j<MAX_RETRIES. (\<exists>e. outcome loads cl rq j = Inl e) \<longleftrightarrow> (\<exists>e. outcome loads cl' rq j = Inl e)"
    and "\<forall>j<MAX_RETRIES. \<forall>v. outcome loads cl rq j = Inr v \<longrightarrow> outcome loads cl' rq j = Inr v"
    and "outcome loads cl rq (MAX_RETRIES - 1) = outcome loads cl' rq (MAX_RETRIES - 1)"
  shows "retry_loop loads cl rq [0..<MAX_RETRIES] le []
         = retry_loop loads cl' rq [0..<MAX_RETRIES] le []"
  using retry_loop_cases [of loads cl rq le]
proof (elim disjE conjE exE)
  fix e
  assume all: "\<forall>j<MAX_RETRIES. \<exists>e. outcome loads cl rq j = Inl e"
    and e: "outcome loads cl rq (MAX_RETRIES - 1) = Inl e"
    and r: "retry_loop loads cl rq [0..<MAX_RETRIES] le []
            = ((failure_message e, PyNone), backoff_schedule rq MAX_RETRIES)"
  from all assms(1) have "\<forall>j<MAX_RETRIES. \<exists>e. outcome loads cl' rq j = Inl e"
    by blast
  moreover have "outcome loads cl' rq (MAX_RETRIES - 1) = Inl e"
    using e assms(3) by simp
  ultimately show ?thesis
    using generate_all_fail [of loads cl' rq le] r by simp
next
  fix j v
  assume j: "j < MAX_RETRIES" "\<forall>i<j. \<exists>e. outcome loads cl rq i = Inl e"
    "outcome loads cl rq j = Inr v"
    and r: "retry_loop loads cl rq [0..<MAX_RETRIES] le []
              = ((success_message, v), backoff_schedule rq (Suc j))"
  have a: "\<forall>i<j. \<exists>e. outcome loads cl' rq i = Inl e"
    using j(1,2) assms(1) by (meson less_trans)
  have b: "outcome loads cl' rq j = Inr v"
    using j(1,3) assms(2) by blast
  from generate_success [OF j(1) a b, of le] r show ?thesis
    by simp
qed

lemma render_chat_page_turn:
  assumes "prompt \<noteq> []"
  shows "messages (fst (render_chat_page (Some cl) (Some prompt) ss))
         = Some (current_log ss @
             [\<lparr>role = ''user'', content = prompt\<rparr>,
              \<lparr>role = ''model'',
               content =
                 (case failure (generate_content_stream cl
                         (chat_request_of (current_log ss @ [\<lparr>role = ''user'', content = prompt\<rparr>]))) of
                    None \<Rightarrow> write_stream (stream_texts (chunks (generate_content_stream cl
                         (chat_request_of (current_log ss @ [\<lparr>role = ''user'', content = prompt\<rparr>])))))
                  | Some e \<Rightarrow> ''An error occurred: '' @ e)\<rparr>])"
  using assms
  by (simp add: render_chat_page_def Let_def current_log_def split: option.splits)

lemma stream_texts_append: "stream_texts (xs @ ys) = stream_texts xs @ stream_texts ys"
  by (simp add: stream_texts_def)

lemma write_stream_all_texts:
  "write_stream (stream_texts cs)
     = concat (map (\<lambda>c. case chunk_text c of None \<Rightarrow> [] | Some t \<Rightarrow> t) cs)"
  by (induction cs) (auto simp: write_stream_def stream_texts_def has_text_def split: option.splits)

lemma render_chat_page_None [simp]: "fst (render_chat_page None p ss) = ss"
  by (simp add: render_chat_page_def)

lemma render_chat_page_Some:
  "\<exists>app. messages (fst (render_chat_page (Some cl) p ss)) = Some (current_log ss @ app)"
  by (cases p) (auto simp: render_chat_page_def Let_def current_log_def split: option.splits)

lemma run_session_snoc:
  "run_session (inputs @ [(c, p)]) = fst (render_chat_page c p (run_session inputs))"
  by (simp add: run_session_def)

lemma run_session_log:
  "(list_all (\<lambda>(c, p). c = None) inputs \<and> messages (run_session inputs) = None)
   \<or> (\<exists>rest. messages (run_session inputs) = Some (greeting # rest))"
proof (induction inputs rule: rev_induct)
  case Nil
  then show ?case by (simp add: run_session_def)
next
  case (snoc x inputs)
  obtain c p where x: "x = (c, p)" by (cases x)
  show ?case
  proof (cases c)
    case None
    with snoc.IH x show ?thesis by (auto simp: run_session_snoc)
  next
    case (Some cl)
    from render_chat_page_Some [of cl p "run_session inputs"]
    obtain app where app: "messages (run_session (inputs @ [x]))
        = Some (current_log (run_session inputs) @ app)"
      using x Some by (auto simp: run_session_snoc)
    from snoc.IH have "\<exists>rest. current_log (run_session inputs) = greeting # rest"
      by (auto simp: current_log_def)
    with app show ?thesis by auto
  qed
qed

lemma every_attempt_fails_iff:
  "every_attempt_fails loads cl rq \<longleftrightarrow> (\<forall>j<MAX_RETRIES. \<exists>e. outcome loads cl rq j = Inl e)"
proof -
  have "(\<exists>e. outcome loads cl rq j = Inl e)
        \<longleftrightarrow> \<not> (\<exists>text v. generate_content cl rq j = Response text \<and> loads text = Decoded v)"
    for j
  proof -
    have "(\<exists>text v. generate_content cl rq j = Response text \<and> loads text = Decoded v)
          \<longleftrightarrow> (\<exists>v. outcome loads cl rq j = Inr v)"
      by (auto simp: outcome_Inr_iff)
    moreover have "(\<exists>e. outcome loads cl rq j = Inl e) \<longleftrightarrow> \<not> (\<exists>v. outcome loads cl rq j = Inr v)"
      by (cases "outcome loads cl rq j") auto
    ultimately show ?thesis by simp
  qed
  then show ?thesis by (simp add: every_attempt_fails_def)
qed

lemma str_nat_MAX_RETRIES: "str_nat (MAX_RETRIES - 1 + 1) = ''5''"
  unfolding MAX_RETRIES_def by code_simp

lemma connection_error_last:
  "connection_error (MAX_RETRIES - 1) x = ''Gemini API connection error (Attempt 5): '' @ x"
  unfolding connection_error_def str_nat_MAX_RETRIES by simp

lemma format_error_last:
  "format_error (MAX_RETRIES - 1) x
     = ''AI response format error (Attempt 5): Failed to parse JSON response. Details: '' @ x"
  unfolding format_error_def str_nat_MAX_RETRIES by simp

lemma exhausted_connection_error_text:
  "failure_message (connection_error (MAX_RETRIES - 1) x)
     = ''Failed to generate itinerary after multiple retries. Last known error: Gemini API connection error (Attempt 5): '' @ x"
  unfolding failure_message_def connection_error_last by simp

lemma exhausted_format_error_text:
  "failure_message (format_error (MAX_RETRIES - 1) x)
     = ''Failed to generate itinerary after multiple retries. Last known error: AI response format error (Attempt 5): Failed to parse JSON response. Details: '' @ x"
  unfolding failure_message_def format_error_last by simp

lemma generate_exhausted:
  assumes "every_attempt_fails loads cl (itinerary_request d n i)"
    and "outcome loads cl (itinerary_request d n i) (MAX_RETRIES - 1) = Inl e"
  shows "generate_student_itinerary loads (Some cl) d n i
           = ((failure_message e, PyNone), backoff_schedule (itinerary_request d n i) MAX_RETRIES)"
proof -
  from assms(1) have "\<forall>j<MAX_RETRIES. \<exists>e. outcome loads cl (itinerary_request d n i) j = Inl e"
    by (simp add: every_attempt_fails_iff)
  from generate_all_fail [OF this] assms(2) show ?thesis
    by (simp add: generate_Some)
qed

section \<open>The claims\<close>

subsection \<open>C1: what the generator returns\<close>

text \<open>
  Claim C1 says that for every valid request the generator returns either an itinerary
  whose days and activities are all well-formed, or an explicit failure. The code returns
  whatever \<^verbatim>\<open>json.loads\<close> produced and never inspects it: for the valid request
  \<^verbatim>\<open>("Goa, India", 3, "beaches, food")\<close> and a provider whose first response is
  \<^verbatim>\<open>[{"day": 1}]\<close>, the result is the success message with a day object that has no
  theme, no plan and no tip.
\<close>

theorem missing_fields_reported_as_success:
  "valid_request ''Goa, India'' 3 ''beaches, food''
   \<and> generate_student_itinerary json_loads
        (Some (scripted_provider [Response (Some missing_fields_text)]))
        ''Goa, India'' 3 ''beaches, food''
      = ((success_message, missing_fields_payload),
         [GenerateContent (itinerary_request ''Goa, India'' 3 ''beaches, food'')])
   \<and> missing_fields_payload = PyList [PyDict [(''day'', PyInt 1)]]
   \<and> \<not> days_well_formed [PyDict [(''day'', PyInt 1)]]
   \<and> \<not> well_formed_itinerary missing_fields_payload"
proof -
  have v: "valid_request ''Goa, India'' 3 ''beaches, food''"
    by (simp add: valid_request_def)
  have d: "\<not> days_well_formed [PyDict [(''day'', PyInt 1)]]"
    by code_simp
  from v d single_response_decoded [OF missing_fields_text_decodes]
    missing_fields_not_well_formed
  show ?thesis
    by (simp add: missing_fields_payload_def)
qed

text \<open>
  Claim C1 as amended. For every valid request and every provider, the generator returns
  either the success message together with exactly the value that \<^verbatim>\<open>json.loads\<close>
  produced for the response text of one of the at most \<open>MAX_RETRIES\<close> attempts (the
  value is not checked against the schema), or an explicit failure: a message other than
  the success message (client not initialised, or retries exhausted) together with
  \<^verbatim>\<open>None\<close>. A failure never carries a payload, so a well-formed itinerary only ever
  comes with the success message.
\<close>

theorem generate_returns_decoded_or_failure:
  assumes "valid_request d n i" and "r = generate_student_itinerary loads c d n i"
  shows "((\<exists>cl k text v. c = Some cl \<and> k < MAX_RETRIES
             \<and> generate_content cl (itinerary_request d n i) k = Response text
             \<and> loads text = Decoded v \<and> fst r = (success_message, v))
          \<or> (snd (fst r) = PyNone \<and> fst (fst r) \<noteq> success_message
               \<and> (fst (fst r) = not_initialized_message \<or> (\<exists>e. fst (fst r) = failure_message e))))
         \<and> (well_formed_itinerary (snd (fst r)) \<longrightarrow> fst (fst r) = success_message)"
proof -
  have main: "(\<exists>cl k text v. c = Some cl \<and> k < MAX_RETRIES
             \<and> generate_content cl (itinerary_request d n i) k = Response text
             \<and> loads text = Decoded v \<and> fst r = (success_message, v))
          \<or> (snd (fst r) = PyNone \<and> fst (fst r) \<noteq> success_message
               \<and> (fst (fst r) = not_initialized_message \<or> (\<exists>e. fst (fst r) = failure_message e)))"
  proof (cases c)
    case None
    with assms(2) show ?thesis
      by (simp add: generate_student_itinerary_def messages_differ)
  next
    case (Some cl)
    from retry_loop_cases [of loads cl "itinerary_request d n i"
        "''Unknown error occurred before first API call.''"]
    show ?thesis
    proof (elim disjE conjE exE)
      fix e
      assume "retry_loop loads cl (itinerary_request d n i) [0..<MAX_RETRIES]
               ''Unknown error occurred before first API call.'' []
             = ((failure_message e, PyNone), backoff_schedule (itinerary_request d n i) MAX_RETRIES)"
      with Some assms(2) have "fst r = (failure_message e, PyNone)"
        by (simp add: generate_Some)
      then show ?thesis
        by (intro disjI2) (auto simp: messages_differ)
    next
      fix j v
      assume j: "j < MAX_RETRIES" "outcome loads cl (itinerary_request d n i) j = Inr v"
        and "retry_loop loads cl (itinerary_request d n i) [0..<MAX_RETRIES]
               ''Unknown error occurred before first API call.'' []
             = ((success_message, v), backoff_schedule (itinerary_request d n i) (Suc j))"
      with Some assms(2) have "fst r = (success_message, v)"
        by (simp add: generate_Some)
      with j Some show ?thesis
        by (intro disjI1) (auto simp: outcome_Inr_iff)
    qed
  qed
  then have "well_formed_itinerary (snd (fst r)) \<longrightarrow> fst (fst r) = success_message"
    by auto
  with main show ?thesis by blast
qed

text \<open>
  A valid request and a provider that answers with a text that is not JSON and then with
  the three-day itinerary: the result is the success message with the decoded itinerary.
\<close>

theorem generate_returns_decoded_or_failure_witness:
  "valid_request ''Goa, India'' 3 ''beaches, food''
   \<and> fst (generate_student_itinerary json_loads
        (Some (scripted_provider [Response (Some ''not json''), Response (Some goa_text)]))
        ''Goa, India'' 3 ''beaches, food'') = (success_message, goa_itinerary)
   \<and> (\<exists>cl k text.
         Some (scripted_provider [Response (Some ''not json''), Response (Some goa_text)]) = Some cl
         \<and> k < MAX_RETRIES
         \<and> generate_content cl (itinerary_request ''Goa, India'' 3 ''beaches, food'') k = Response text
         \<and> json_loads text = Decoded goa_itinerary)"
proof -
  let ?c = "Some (scripted_provider [Response (Some ''not json''), Response (Some goa_text)])"
  let ?r = "generate_student_itinerary json_loads ?c ''Goa, India'' 3 ''beaches, food''"
  have v: "valid_request ''Goa, India'' 3 ''beaches, food''"
    by (simp add: valid_request_def)
  have e: "fst ?r = (success_message, goa_itinerary)"
    by code_simp
  have "goa_itinerary \<noteq> PyNone"
    by (simp add: goa_itinerary_def)
  with generate_returns_decoded_or_failure [OF v refl, where loads = json_loads and c = "?c"] e
  have "\<exists>cl k text v. ?c = Some cl \<and> k < MAX_RETRIES
             \<and> generate_content cl (itinerary_request ''Goa, India'' 3 ''beaches, food'') k = Response text
             \<and> json_loads text = Decoded v \<and> fst ?r = (success_message, v)"
    by auto
  with v e show ?thesis by auto
qed

subsection \<open>C2: which failures are retried\<close>

text \<open>
  Claim C2 counts JSON that violates the schema (a missing field, a wrong type, an empty
  required list) among the decode errors that trigger the next attempt. The code retries
  only when \<^verbatim>\<open>json.loads\<close> raises: a first response whose only day has an empty
  \<^verbatim>\<open>plan\<close> is returned at once as a success, after one provider call, although the
  provider would have answered the second call with a well-formed itinerary.
\<close>

theorem schema_violation_not_retried:
  "json_loads (Some empty_plan_text) = Decoded empty_plan_payload
   \<and> \<not> well_formed_itinerary empty_plan_payload
   \<and> generate_student_itinerary json_loads
        (Some (scripted_provider [Response (Some empty_plan_text), Response (Some goa_text)]))
        ''Goa, India'' 3 ''beaches, food''
      = ((success_message, empty_plan_payload),
         [GenerateContent (itinerary_request ''Goa, India'' 3 ''beaches, food'')])"
proof -
  let ?rq = "itinerary_request ''Goa, India'' 3 ''beaches, food''"
  let ?cl = "scripted_provider [Response (Some empty_plan_text), Response (Some goa_text)]"
  have "generate_content ?cl ?rq 0 = Response (Some empty_plan_text)"
    by (simp add: scripted_provider_def)
  with generate_first_success [of 0 json_loads ?cl "''Goa, India''" 3 "''beaches, food''"
      "Some empty_plan_text" empty_plan_payload] empty_plan_text_decodes MAX_RETRIES_pos
  have "generate_student_itinerary json_loads (Some ?cl) ''Goa, India'' 3 ''beaches, food''
      = ((success_message, empty_plan_payload), [GenerateContent ?rq])"
    by simp
  with empty_plan_text_decodes empty_plan_not_well_formed show ?thesis
    by (simp only: simp_thms)
qed

text \<open>
  Claim C2 as amended. When attempt \<open>k\<close> (counted from 0, with \<open>k + 1 < MAX_RETRIES\<close>) is
  reached and fails, either because the provider call raises or because the response text
  is not valid JSON (\<^verbatim>\<open>json.loads\<close> raises \<^verbatim>\<open>JSONDecodeError\<close>), the run continues
  with the delay \<open>INITIAL_DELAY * 2 ^ k\<close> and attempt \<open>k + 1\<close>. The two kinds of failure
  are retried identically: two providers that differ only in how attempt \<open>k\<close> fails give
  the same result and the same effects. JSON that parses is not a decode error, whatever
  its shape.
\<close>

theorem failed_attempt_is_retried:
  assumes "rq = itinerary_request d n i" and "Suc k < MAX_RETRIES"
    and "\<forall>j<k. \<exists>e. outcome loads cl rq j = Inl e"
    and "generate_content cl rq k = Raises e
         \<or> (\<exists>text. generate_content cl rq k = Response text \<and> loads text = JSONDecodeError e)"
  shows "(\<exists>rest. snd (generate_student_itinerary loads (Some cl) d n i)
            = backoff_schedule rq (Suc k) @ [Sleep (INITIAL_DELAY * 2 ^ k), GenerateContent rq] @ rest)
         \<and> Suc (Suc k) \<le> count_calls (snd (generate_student_itinerary loads (Some cl) d n i))
         \<and> ((\<forall>j. j \<noteq> k \<longrightarrow> outcome loads cl' rq j = outcome loads cl rq j)
              \<and> (generate_content cl' rq k = Raises e'
                  \<or> (\<exists>text. generate_content cl' rq k = Response text
                        \<and> loads text = JSONDecodeError e'))
            \<longrightarrow> generate_student_itinerary loads (Some cl') d n i
                = generate_student_itinerary loads (Some cl) d n i)"
proof -
  have fk: "\<exists>err. outcome loads cl rq k = Inl err"
    using assms(4) by (auto simp: outcome_Inl_iff)
  with assms(3) have fails: "\<forall>j<Suc k. \<exists>e. outcome loads cl rq j = Inl e"
    by (auto simp: less_Suc_eq)
  from retry_loop_after_failures [OF assms(2) fails,
      of "''Unknown error occurred before first API call.''"]
  obtain m where m: "Suc (Suc k) \<le> m" "m \<le> MAX_RETRIES"
    "snd (generate_student_itinerary loads (Some cl) d n i) = backoff_schedule rq m"
    using assms(1) by (auto simp: generate_Some)
  from schedule_prefix [of "Suc (Suc k)" m rq] m(1)
  obtain rest where "backoff_schedule rq m = backoff_schedule rq (Suc (Suc k)) @ rest"
    by auto
  then have p: "\<exists>rest. snd (generate_student_itinerary loads (Some cl) d n i)
            = backoff_schedule rq (Suc k) @ [Sleep (INITIAL_DELAY * 2 ^ k), GenerateContent rq] @ rest"
    using m(3) by (simp add: backoff_schedule_Suc)
  have q: "Suc (Suc k) \<le> count_calls (snd (generate_student_itinerary loads (Some cl) d n i))"
    using m by simp
  have s: "(\<forall>j. j \<noteq> k \<longrightarrow> outcome loads cl' rq j = outcome loads cl rq j)
              \<and> (generate_content cl' rq k = Raises e'
                  \<or> (\<exists>text. generate_content cl' rq k = Response text
                        \<and> loads text = JSONDecodeError e'))
            \<longrightarrow> generate_student_itinerary loads (Some cl') d n i
                = generate_student_itinerary loads (Some cl) d n i"
  proof (intro impI, elim conjE)
    assume same: "\<forall>j. j \<noteq> k \<longrightarrow> outcome loads cl' rq j = outcome loads cl rq j"
      and "generate_content cl' rq k = Raises e'
                  \<or> (\<exists>text. generate_content cl' rq k = Response text
                        \<and> loads text = JSONDecodeError e')"
    then have fk': "\<exists>err. outcome loads cl' rq k = Inl err"
      by (auto simp: outcome_Inl_iff)
    have 1: "\<forall>j<MAX_RETRIES. (\<exists>e. outcome loads cl' rq j = Inl e)
                \<longleftrightarrow> (\<exists>e. outcome loads cl rq j = Inl e)"
      using same fk fk' by metis
    have 2: "\<forall>j<MAX_RETRIES. \<forall>v. outcome loads cl' rq j = Inr v \<longrightarrow> outcome loads cl rq j = Inr v"
      using same fk' by (metis Inl_Inr_False)
    have 3: "outcome loads cl' rq (MAX_RETRIES - 1) = outcome loads cl rq (MAX_RETRIES - 1)"
      using same assms(2) by (metis Suc_lessD diff_Suc_1 less_irrefl_nat Suc_pred MAX_RETRIES_pos)
    from retry_loop_same_outcomes [OF 1 2 3] assms(1)
    show "generate_student_itinerary loads (Some cl') d n i
                = generate_student_itinerary loads (Some cl) d n i"
      by (simp add: generate_Some)
  qed
  from p q s show ?thesis by blast
qed

text \<open>
  A first attempt that times out is followed by the delay 1 and a second call; a first
  attempt that returns a text that is not JSON gives the very same run.
\<close>

theorem failed_attempt_is_retried_witness:
  "(\<exists>rest. snd (generate_student_itinerary json_loads
        (Some (scripted_provider [Raises ''timeout'', Response (Some goa_text)]))
        ''Goa, India'' 3 ''beaches, food'')
      = [GenerateContent (itinerary_request ''Goa, India'' 3 ''beaches, food''), Sleep 1,
         GenerateContent (itinerary_request ''Goa, India'' 3 ''beaches, food'')] @ rest)
   \<and> generate_student_itinerary json_loads
        (Some (scripted_provider [Response (Some ''not json''), Response (Some goa_text)]))
        ''Goa, India'' 3 ''beaches, food''
     = generate_student_itinerary json_loads
        (Some (scripted_provider [Raises ''timeout'', Response (Some goa_text)]))
        ''Goa, India'' 3 ''beaches, food''"
proof -
  let ?rq = "itinerary_request ''Goa, India'' 3 ''beaches, food''"
  let ?cl = "scripted_provider [Raises ''timeout'', Response (Some goa_text)]"
  let ?cl' = "scripted_provider [Response (Some ''not json''), Response (Some goa_text)]"
  have k: "Suc 0 < MAX_RETRIES"
    by (simp add: MAX_RETRIES_def)
  have f: "\<forall>j<0. \<exists>e. outcome json_loads ?cl ?rq j = Inl e"
    by simp
  have r: "generate_content ?cl ?rq 0 = Raises ''timeout''
           \<or> (\<exists>text. generate_content ?cl ?rq 0 = Response text
                 \<and> json_loads text = JSONDecodeError ''timeout'')"
    by (simp add: scripted_provider_def)
  have r': "generate_content ?cl' ?rq 0 = Raises decode_failure
            \<or> (\<exists>text. generate_content ?cl' ?rq 0 = Response text
                  \<and> json_loads text = JSONDecodeError decode_failure)"
    by (simp add: scripted_provider_def not_json_rejected)
  have same: "\<forall>j. j \<noteq> 0 \<longrightarrow> outcome json_loads ?cl' ?rq j = outcome json_loads ?cl ?rq j"
    by (auto simp: outcome_def attempt_body_def scripted_provider_def nth_Cons split: nat.splits)
  have s: "backoff_schedule ?rq (Suc 0) @ [Sleep (INITIAL_DELAY * 2 ^ 0), GenerateContent ?rq]
           = [GenerateContent ?rq, Sleep 1, GenerateContent ?rq]"
    by (simp add: INITIAL_DELAY_def)
  from failed_attempt_is_retried [OF refl k f r, of ?cl' decode_failure] r' same
  have "(\<exists>rest. snd (generate_student_itinerary json_loads (Some ?cl) ''Goa, India'' 3 ''beaches, food'')
            = backoff_schedule ?rq (Suc 0) @ [Sleep (INITIAL_DELAY * 2 ^ 0), GenerateContent ?rq] @ rest)
        \<and> generate_student_itinerary json_loads (Some ?cl') ''Goa, India'' 3 ''beaches, food''
          = generate_student_itinerary json_loads (Some ?cl) ''Goa, India'' 3 ''beaches, food''"
    by blast
  then show ?thesis
    using s by (metis append.assoc)
qed

subsection \<open>C3: the retry bound and the backoff\<close>

text \<open>
  Claim C3. For every run of the structured generator, whatever the decoder, the client
  and the request: the number of provider calls is at most \<open>MAX_RETRIES\<close>, which is 5;
  the effects of the run are exactly the schedule of that many attempts, that is, the
  delay between attempt \<open>i\<close> and attempt \<open>i + 1\<close> (counted from 0) is
  \<open>INITIAL_DELAY * 2 ^ i\<close> with \<open>INITIAL_DELAY = 1\<close> and nothing random in it; and the
  last effect of a run that called the provider is a provider call, so no delay follows
  the final attempt.
\<close>

theorem retry_bound_and_backoff:
  assumes "tr = snd (generate_student_itinerary loads c d n i)"
  shows "count_calls tr \<le> MAX_RETRIES \<and> MAX_RETRIES = 5 \<and> INITIAL_DELAY = 1
         \<and> tr = backoff_schedule (itinerary_request d n i) (count_calls tr)
         \<and> sleeps tr = map (\<lambda>i. INITIAL_DELAY * 2 ^ i) [0..<count_calls tr - 1]
         \<and> (tr = [] \<or> last tr = GenerateContent (itinerary_request d n i))"
proof -
  from trace_is_schedule [of loads c d n i] assms
  obtain m where m: "m \<le> MAX_RETRIES" "tr = backoff_schedule (itinerary_request d n i) m"
    by auto
  have "tr = [] \<or> last tr = GenerateContent (itinerary_request d n i)"
    using m(2) last_schedule [of m] by (cases m) auto
  with m show ?thesis
    by (simp add: sleeps_schedule MAX_RETRIES_def INITIAL_DELAY_def)
qed

text \<open>
  A run in which every attempt fails (a timeout, a text that is not JSON, then refused
  connections): five calls, and the delays 1, 2, 4 and 8 between them.
\<close>

theorem retry_bound_and_backoff_witness:
  "sleeps (snd (generate_student_itinerary json_loads
       (Some (scripted_provider [Raises ''timeout'', Response (Some ''not json'')]))
       ''Goa, India'' 3 ''beaches, food'')) = [1, 2, 4, 8]
   \<and> count_calls (snd (generate_student_itinerary json_loads
       (Some (scripted_provider [Raises ''timeout'', Response (Some ''not json'')]))
       ''Goa, India'' 3 ''beaches, food'')) = 5"
proof -
  let ?tr = "snd (generate_student_itinerary json_loads
       (Some (scripted_provider [Raises ''timeout'', Response (Some ''not json'')]))
       ''Goa, India'' 3 ''beaches, food'')"
  have c: "count_calls ?tr = 5"
    by code_simp
  have s: "map (\<lambda>i. INITIAL_DELAY * 2 ^ i) [0..<5 - 1] = [1, 2, 4, 8]"
    by code_simp
  have "sleeps ?tr = map (\<lambda>i. INITIAL_DELAY * 2 ^ i) [0..<count_calls ?tr - 1]"
    using retry_bound_and_backoff [OF refl, of json_loads
      "Some (scripted_provider [Raises ''timeout'', Response (Some ''not json'')])"
      "''Goa, India''" 3 "''beaches, food''"]
    by blast
  then show ?thesis by (simp only: c s)
qed

subsection \<open>C4: exhaustion\<close>

text \<open>
  Claim C4. When every one of the \<open>MAX_RETRIES\<close> attempts fails (the call raises or the
  text does not decode), the generator returns \<^verbatim>\<open>None\<close> as itinerary together with
  the message \<^verbatim>\<open>Failed to generate itinerary after multiple retries. Last known error: \<close>
  followed by the description of the last attempt, which is attempt 5: when its call
  raised \<open>x\<close>, or the decoder raised an exception \<open>x\<close> other than a decode error,
  \<^verbatim>\<open>Gemini API connection error (Attempt 5): \<close> followed by \<open>x\<close>; when its text was
  not valid JSON and the decoder raised the decode error \<open>x\<close>,
  \<^verbatim>\<open>AI response format error (Attempt 5): Failed to parse JSON response. Details: \<close>
  followed by \<open>x\<close>. The effects of such a run are those of \<open>MAX_RETRIES\<close> attempts.
  Every result of the generator is of one of three kinds: the not-initialised message
  with \<^verbatim>\<open>None\<close> when there is no client; the success message with the value decoded
  from the response of some attempt; or the failure message above with \<^verbatim>\<open>None\<close>, and
  then every attempt failed and the message carries the description of attempt 5. The
  error of a single attempt is thus never the result by itself.
\<close>

theorem exhaustion_reports_last_error:
  assumes "rq = itinerary_request d n i"
  shows "(every_attempt_fails loads cl rq \<and> generate_content cl rq (MAX_RETRIES - 1) = Raises x
          \<longrightarrow> generate_student_itinerary loads (Some cl) d n i
                = ((''Failed to generate itinerary after multiple retries. Last known error: Gemini API connection error (Attempt 5): '' @ x,
                    PyNone),
                   backoff_schedule rq MAX_RETRIES))
         \<and> (every_attempt_fails loads cl rq
              \<and> generate_content cl rq (MAX_RETRIES - 1) = Response resp
              \<and> loads resp = JSONDecodeError x
            \<longrightarrow> generate_student_itinerary loads (Some cl) d n i
                = ((''Failed to generate itinerary after multiple retries. Last known error: AI response format error (Attempt 5): Failed to parse JSON response. Details: '' @ x,
                    PyNone),
                   backoff_schedule rq MAX_RETRIES))
         \<and> (every_attempt_fails loads cl rq
              \<and> generate_content cl rq (MAX_RETRIES - 1) = Response resp
              \<and> loads resp = OtherException x
            \<longrightarrow> generate_student_itinerary loads (Some cl) d n i
                = ((''Failed to generate itinerary after multiple retries. Last known error: Gemini API connection error (Attempt 5): '' @ x,
                    PyNone),
                   backoff_schedule rq MAX_RETRIES))
         \<and> ((c = None
               \<and> fst (generate_student_itinerary loads c d n i)
                   = (''Error: Gemini client is not initialized. Check API Key.'', PyNone))
             \<or> (\<exists>cl' k text' v. c = Some cl' \<and> k < MAX_RETRIES
                   \<and> generate_content cl' rq k = Response text' \<and> loads text' = Decoded v
                   \<and> fst (generate_student_itinerary loads c d n i)
                       = (''Itinerary generated successfully!'', v))
             \<or> (\<exists>cl' e. c = Some cl' \<and> every_attempt_fails loads cl' rq
                   \<and> fst (generate_student_itinerary loads c d n i)
                       = (''Failed to generate itinerary after multiple retries. Last known error: '' @ e,
                          PyNone)
                   \<and> ((\<exists>y. generate_content cl' rq (MAX_RETRIES - 1) = Raises y
                             \<and> e = ''Gemini API connection error (Attempt 5): '' @ y)
                        \<or> (\<exists>text' y. generate_content cl' rq (MAX_RETRIES - 1) = Response text'
                             \<and> loads text' = JSONDecodeError y
                             \<and> e = ''AI response format error (Attempt 5): Failed to parse JSON response. Details: '' @ y)
                        \<or> (\<exists>text' y. generate_content cl' rq (MAX_RETRIES - 1) = Response text'
                             \<and> loads text' = OtherException y
                             \<and> e = ''Gemini API connection error (Attempt 5): '' @ y))))"
proof -
  have a: "every_attempt_fails loads cl rq \<and> generate_content cl rq (MAX_RETRIES - 1) = Raises x
          \<longrightarrow> generate_student_itinerary loads (Some cl) d n i
                = ((''Failed to generate itinerary after multiple retries. Last known error: Gemini API connection error (Attempt 5): '' @ x,
                    PyNone),
                   backoff_schedule rq MAX_RETRIES)"
  proof (intro impI, elim conjE)
    assume f: "every_attempt_fails loads cl rq"
      and "generate_content cl rq (MAX_RETRIES - 1) = Raises x"
    then have "outcome loads cl rq (MAX_RETRIES - 1) = Inl (connection_error (MAX_RETRIES - 1) x)"
      by (simp add: outcome_Inl_iff)
    from generate_exhausted [OF f [unfolded assms] this [unfolded assms]] assms
    show "generate_student_itinerary loads (Some cl) d n i
                = ((''Failed to generate itinerary after multiple retries. Last known error: Gemini API connection error (Attempt 5): '' @ x,
                    PyNone),
                   backoff_schedule rq MAX_RETRIES)"
      by (simp only: exhausted_connection_error_text)
  qed
  have b: "every_attempt_fails loads cl rq
              \<and> generate_content cl rq (MAX_RETRIES - 1) = Response resp
              \<and> loads resp = JSONDecodeError x
            \<longrightarrow> generate_student_itinerary loads (Some cl) d n i
                = ((''Failed to generate itinerary after multiple retries. Last known error: AI response format error (Attempt 5): Failed to parse JSON response. Details: '' @ x,
                    PyNone),
                   backoff_schedule rq MAX_RETRIES)"
  proof (intro impI, elim conjE)
    assume f: "every_attempt_fails loads cl rq"
      and "generate_content cl rq (MAX_RETRIES - 1) = Response resp"
      and "loads resp = JSONDecodeError x"
    then have "outcome loads cl rq (MAX_RETRIES - 1) = Inl (format_error (MAX_RETRIES - 1) x)"
      by (simp add: outcome_Inl_iff)
    from generate_exhausted [OF f [unfolded assms] this [unfolded assms]] assms
    show "generate_student_itinerary loads (Some cl) d n i
                = ((''Failed to generate itinerary after multiple retries. Last known error: AI response format error (Attempt 5): Failed to parse JSON response. Details: '' @ x,
                    PyNone),
                   backoff_schedule rq MAX_RETRIES)"
      by (simp only: exhausted_format_error_text)
  qed
  have o: "every_attempt_fails loads cl rq
              \<and> generate_content cl rq (MAX_RETRIES - 1) = Response resp
              \<and> loads resp = OtherException x
            \<longrightarrow> generate_student_itinerary loads (Some cl) d n i
                = ((''Failed to generate itinerary after multiple retries. Last known error: Gemini API connection error (Attempt 5): '' @ x,
                    PyNone),
                   backoff_schedule rq MAX_RETRIES)"
  proof (intro impI, elim conjE)
    assume f: "every_attempt_fails loads cl rq"
      and "generate_content cl rq (MAX_RETRIES - 1) = Response resp"
      and "loads resp = OtherException x"
    then have "outcome loads cl rq (MAX_RETRIES - 1) = Inl (connection_error (MAX_RETRIES - 1) x)"
      by (simp add: outcome_Inl_iff)
    from generate_exhausted [OF f [unfolded assms] this [unfolded assms]] assms
    show "generate_student_itinerary loads (Some cl) d n i
                = ((''Failed to generate itinerary after multiple retries. Last known error: Gemini API connection error (Attempt 5): '' @ x,
                    PyNone),
                   backoff_schedule rq MAX_RETRIES)"
      by (simp only: exhausted_connection_error_text)
  qed
  have k: "(c = None
               \<and> fst (generate_student_itinerary loads c d n i)
                   = (''Error: Gemini client is not initialized. Check API Key.'', PyNone))
             \<or> (\<exists>cl' k text' v. c = Some cl' \<and> k < MAX_RETRIES
                   \<and> generate_content cl' rq k = Response text' \<and> loads text' = Decoded v
                   \<and> fst (generate_student_itinerary loads c d n i)
                       = (''Itinerary generated successfully!'', v))
             \<or> (\<exists>cl' e. c = Some cl' \<and> every_attempt_fails loads cl' rq
                   \<and> fst (generate_student_itinerary loads c d n i)
                       = (''Failed to generate itinerary after multiple retries. Last known error: '' @ e,
                          PyNone)
                   \<and> ((\<exists>y. generate_content cl' rq (MAX_RETRIES - 1) = Raises y
                             \<and> e = ''Gemini API connection error (Attempt 5): '' @ y)
                        \<or> (\<exists>text' y. generate_content cl' rq (MAX_RETRIES - 1) = Response text'
                             \<and> loads text' = JSONDecodeError y
                             \<and> e = ''AI response format error (Attempt 5): Failed to parse JSON response. Details: '' @ y)
                        \<or> (\<exists>text' y. generate_content cl' rq (MAX_RETRIES - 1) = Response text'
                             \<and> loads text' = OtherException y
                             \<and> e = ''Gemini API connection error (Attempt 5): '' @ y)))"
  proof (cases c)
    case None
    then show ?thesis
      by (simp add: generate_student_itinerary_def not_initialized_message_def)
  next
    case (Some cl')
    from retry_loop_cases [of loads cl' rq "''Unknown error occurred before first API call.''"]
    show ?thesis
    proof (elim disjE conjE exE)
      fix e
      assume all: "\<forall>j<MAX_RETRIES. \<exists>e'. outcome loads cl' rq j = Inl e'"
        and e: "outcome loads cl' rq (MAX_RETRIES - 1) = Inl e"
        and "retry_loop loads cl' rq [0..<MAX_RETRIES]
               ''Unknown error occurred before first API call.'' []
             = ((failure_message e, PyNone), backoff_schedule rq MAX_RETRIES)"
      with Some assms have r: "fst (generate_student_itinerary loads c d n i)
          = (''Failed to generate itinerary after multiple retries. Last known error: '' @ e,
             PyNone)"
        by (simp add: generate_Some failure_message_def)
      from all have f: "every_attempt_fails loads cl' rq"
        by (simp add: every_attempt_fails_iff)
      from e have "(\<exists>y. generate_content cl' rq (MAX_RETRIES - 1) = Raises y
                             \<and> e = ''Gemini API connection error (Attempt 5): '' @ y)
                        \<or> (\<exists>text' y. generate_content cl' rq (MAX_RETRIES - 1) = Response text'
                             \<and> loads text' = JSONDecodeError y
                             \<and> e = ''AI response format error (Attempt 5): Failed to parse JSON response. Details: '' @ y)
                        \<or> (\<exists>text' y. generate_content cl' rq (MAX_RETRIES - 1) = Response text'
                             \<and> loads text' = OtherException y
                             \<and> e = ''Gemini API connection error (Attempt 5): '' @ y)"
        unfolding outcome_Inl_iff connection_error_last format_error_last .
      with Some r f show ?thesis
        by (intro disjI2) blast
    next
      fix j v
      assume "j < MAX_RETRIES" and "outcome loads cl' rq j = Inr v"
        and "retry_loop loads cl' rq [0..<MAX_RETRIES]
               ''Unknown error occurred before first API call.'' []
             = ((success_message, v), backoff_schedule rq (Suc j))"
      with Some assms show ?thesis
        by (intro disjI2 disjI1) (auto simp: generate_Some outcome_Inr_iff success_message_def)
    qed
  qed
  from a b o k show ?thesis by (intro conjI)
qed

text \<open>
  The provider returns the text \<^verbatim>\<open>not json\<close> on all five attempts: the failure message
  carries the format error of attempt 5 with the decoder's description. A second provider
  fails five times in different ways, the last time with \<^verbatim>\<open>503 UNAVAILABLE\<close>: the
  failure message carries the connection error of attempt 5 and none of the earlier ones.
\<close>

theorem exhaustion_reports_last_error_witness:
  "fst (generate_student_itinerary json_loads
          (Some (scripted_provider (replicate 5 (Response (Some ''not json'')))))
          ''Goa, India'' 3 ''beaches, food'')
     = (''Failed to generate itinerary after multiple retries. Last known error: AI response format error (Attempt 5): Failed to parse JSON response. Details: Expecting value: line 1 column 1 (char 0)'',
        PyNone)
   \<and> fst (generate_student_itinerary json_loads
          (Some (scripted_provider
             [Raises ''timeout'', Response (Some ''not json''), Response None,
              Raises ''connection reset'', Raises ''503 UNAVAILABLE'']))
          ''Goa, India'' 3 ''beaches, food'')
     = (''Failed to generate itinerary after multiple retries. Last known error: Gemini API connection error (Attempt 5): 503 UNAVAILABLE'',
        PyNone)"
proof -
  let ?rq = "itinerary_request ''Goa, India'' 3 ''beaches, food''"
  let ?cl = "scripted_provider (replicate 5 (Response (Some ''not json'')))"
  let ?cl2 = "scripted_provider
             [Raises ''timeout'', Response (Some ''not json''), Response None,
              Raises ''connection reset'', Raises ''503 UNAVAILABLE'']"
  have f: "every_attempt_fails json_loads ?cl ?rq"
    by (simp add: every_attempt_fails_def scripted_provider_def MAX_RETRIES_def
          not_json_rejected)
  have l: "generate_content ?cl ?rq (MAX_RETRIES - 1) = Response (Some ''not json'')"
    by (simp add: scripted_provider_def MAX_RETRIES_def)
  have n: "json_loads None
             = OtherException ''the JSON object must be str, bytes or bytearray, not NoneType''"
    by (simp add: json_loads_def)
  have g: "generate_content ?cl2 ?rq j
             = [Raises ''timeout'', Response (Some ''not json''), Response None,
                Raises ''connection reset'', Raises ''503 UNAVAILABLE''] ! j"
    if "j < 5" for j
    using that by (simp add: scripted_provider_def)
  have f2: "every_attempt_fails json_loads ?cl2 ?rq"
    unfolding every_attempt_fails_def MAX_RETRIES_def
  proof (intro allI impI)
    fix j :: nat
    assume "j < 5"
    then consider "j = 0" | "j = 1" | "j = 2" | "j = 3" | "j = 4"
      by linarith
    then show "\<not> (\<exists>t v. generate_content ?cl2 ?rq j = Response t
                   \<and> json_loads t = Decoded v)"
      by cases (simp_all add: scripted_provider_def not_json_rejected n)
  qed
  have l2: "generate_content ?cl2 ?rq (MAX_RETRIES - 1) = Raises ''503 UNAVAILABLE''"
    by (simp add: scripted_provider_def MAX_RETRIES_def)
  have 1: "generate_student_itinerary json_loads (Some ?cl) ''Goa, India'' 3 ''beaches, food''
      = ((''Failed to generate itinerary after multiple retries. Last known error: AI response format error (Attempt 5): Failed to parse JSON response. Details: '' @ decode_failure,
          PyNone),
         backoff_schedule ?rq MAX_RETRIES)"
    using exhaustion_reports_last_error [OF refl, where loads = json_loads and cl = "?cl"
        and d = "''Goa, India''" and n = 3 and i = "''beaches, food''"
        and resp = "Some ''not json''" and x = decode_failure]
      f l not_json_rejected
    by blast
  have 2: "generate_student_itinerary json_loads (Some ?cl2) ''Goa, India'' 3 ''beaches, food''
      = ((''Failed to generate itinerary after multiple retries. Last known error: Gemini API connection error (Attempt 5): '' @ ''503 UNAVAILABLE'',
          PyNone),
         backoff_schedule ?rq MAX_RETRIES)"
    using exhaustion_reports_last_error [OF refl, where loads = json_loads and cl = "?cl2"
        and d = "''Goa, India''" and n = 3 and i = "''beaches, food''"
        and x = "''503 UNAVAILABLE''"]
      f2 l2
    by blast
  from 1 2 show ?thesis
    by (simp add: decode_failure_def)
qed

subsection \<open>C5: the first successful decode ends the run\<close>

text \<open>
  Claim C5. When attempts \<open>0, \<dots>, k - 1\<close> fail and the response text of attempt \<open>k\<close>
  decodes, the generator returns the success message with the decoded value, and the
  effects of the run are those of \<open>k + 1\<close> attempts: \<open>k + 1\<close> provider calls, the \<open>k\<close>
  delays between them, the successful call last, with no attempt and no delay after it.
  A run whose first response decodes consists of that one call.
\<close>

theorem first_success_returns_immediately:
  assumes "rq = itinerary_request d n i" and "k < MAX_RETRIES"
    and "\<forall>j<k. \<exists>e. outcome loads cl rq j = Inl e"
    and "generate_content cl rq k = Response text" and "loads text = Decoded v"
  shows "generate_student_itinerary loads (Some cl) d n i
           = ((success_message, v), backoff_schedule rq (Suc k))
         \<and> count_calls (backoff_schedule rq (Suc k)) = Suc k
         \<and> sleeps (backoff_schedule rq (Suc k)) = map (\<lambda>j. INITIAL_DELAY * 2 ^ j) [0..<k]
         \<and> last (backoff_schedule rq (Suc k)) = GenerateContent rq
         \<and> backoff_schedule rq (Suc 0) = [GenerateContent rq]"
proof -
  have "outcome loads cl rq k = Inr v"
    using assms(4,5) by (auto simp: outcome_Inr_iff)
  from generate_success [OF assms(2,3) this] assms(1)
  have "generate_student_itinerary loads (Some cl) d n i
           = ((success_message, v), backoff_schedule rq (Suc k))"
    by (simp add: generate_Some)
  then show ?thesis
    by (simp add: sleeps_schedule last_schedule)
qed

text \<open>
  For the request \<^verbatim>\<open>("Goa, India", 3, "beaches, food")\<close> and a provider that returns
  three well-formed day objects on the first attempt, the result is the itinerary of three
  days after a single call; when the first attempt times out instead, the same itinerary
  is returned after the delay 1 and the second call.
\<close>

theorem first_success_returns_immediately_witness:
  "generate_student_itinerary json_loads (Some (scripted_provider [Response (Some goa_text)]))
       ''Goa, India'' 3 ''beaches, food''
     = ((success_message, goa_itinerary),
        [GenerateContent (itinerary_request ''Goa, India'' 3 ''beaches, food'')])
   \<and> well_formed_itinerary goa_itinerary
   \<and> generate_student_itinerary json_loads
       (Some (scripted_provider [Raises ''timeout'', Response (Some goa_text)]))
       ''Goa, India'' 3 ''beaches, food''
     = ((success_message, goa_itinerary),
        [GenerateContent (itinerary_request ''Goa, India'' 3 ''beaches, food''), Sleep 1,
         GenerateContent (itinerary_request ''Goa, India'' 3 ''beaches, food'')])"
proof -
  let ?rq = "itinerary_request ''Goa, India'' 3 ''beaches, food''"
  let ?c0 = "scripted_provider [Response (Some goa_text)]"
  let ?c1 = "scripted_provider [Raises ''timeout'', Response (Some goa_text)]"
  have k0: "0 < MAX_RETRIES" and k1: "1 < MAX_RETRIES"
    by (simp_all add: MAX_RETRIES_def)
  have r0: "generate_content ?c0 ?rq 0 = Response (Some goa_text)"
    by (simp add: scripted_provider_def)
  have r1: "generate_content ?c1 ?rq 1 = Response (Some goa_text)"
    by (simp add: scripted_provider_def)
  have f0: "\<forall>j<0. \<exists>e. outcome json_loads ?c0 ?rq j = Inl e"
    by simp
  have f1: "\<forall>j<1. \<exists>e. outcome json_loads ?c1 ?rq j = Inl e"
    by (simp add: outcome_def attempt_body_def scripted_provider_def)
  have s2: "backoff_schedule ?rq (Suc 1) = [GenerateContent ?rq, Sleep 1, GenerateContent ?rq]"
    by (simp add: backoff_schedule_Suc INITIAL_DELAY_def)
  from first_success_returns_immediately [OF refl k0 f0 r0 goa_text_decodes]
  have a: "generate_student_itinerary json_loads (Some ?c0) ''Goa, India'' 3 ''beaches, food''
     = ((success_message, goa_itinerary), [GenerateContent ?rq])"
    by simp
  from first_success_returns_immediately [OF refl k1 f1 r1 goa_text_decodes]
  have b: "generate_student_itinerary json_loads (Some ?c1) ''Goa, India'' 3 ''beaches, food''
     = ((success_message, goa_itinerary), [GenerateContent ?rq, Sleep 1, GenerateContent ?rq])"
    by (simp only: s2)
  from a b goa_itinerary_well_formed show ?thesis by simp
qed

subsection \<open>C6: no client\<close>

text \<open>
  Claim C6. Without a client (\<^verbatim>\<open>GEMINI_CLIENT\<close> is \<^verbatim>\<open>None\<close>), the generator returns
  the not-initialised message with \<^verbatim>\<open>None\<close> and makes no provider call, and the chat
  page shows its unavailable message, leaves the session state as it is and makes no
  streaming call. The client is \<^verbatim>\<open>None\<close> when the key is empty and when the
  constructor raises.
\<close>

theorem unconfigured_client_fails_fast:
  "generate_student_itinerary loads None d n i = ((not_initialized_message, PyNone), [])
   \<and> count_calls (snd (generate_student_itinerary loads None d n i)) = 0
   \<and> render_chat_page None chat_input ss
       = (ss, [Header (speech_balloon @ '' AI Chat: Ask Anything!''), Markdown ''---'',
               ErrorBox unavailable_message])
   \<and> stream_requests (snd (render_chat_page None chat_input ss)) = []
   \<and> fst (init_client [] Client) = None
   \<and> fst (init_client api_key (\<lambda>key. Inl e)) = None"
  by (simp add: generate_student_itinerary_def render_chat_page_def stream_requests_def
        init_client_def)

subsection \<open>C7: a chat turn appends two messages\<close>

text \<open>
  Claim C7. A run of the chat page with a client and a submitted, non-empty text appends
  exactly two messages to the log (the log as it stands after seeding): the user message,
  then one message of role \<^verbatim>\<open>model\<close> whose content is the concatenated stream text
  when the stream ends normally, and the error description when the stream raises, at
  once or after some chunks. The log is two entries longer than before.
\<close>

theorem chat_turn_appends_two:
  assumes "prompt \<noteq> []"
    and "user_message = \<lparr>role = ''user'', content = prompt\<rparr>"
    and "response_stream = generate_content_stream cl (chat_request_of (current_log ss @ [user_message]))"
    and "reply = (case failure response_stream of
                    None \<Rightarrow> write_stream (stream_texts (chunks response_stream))
                  | Some e \<Rightarrow> ''An error occurred: '' @ e)"
  shows "\<exists>log. messages (fst (render_chat_page (Some cl) (Some prompt) ss)) = Some log
           \<and> log = current_log ss @ [user_message, \<lparr>role = ''model'', content = reply\<rparr>]
           \<and> length log = length (current_log ss) + 2"
  unfolding assms(4) assms(3) assms(2)
  using render_chat_page_turn [OF assms(1), of cl ss]
  by simp

text \<open>
  From the log with the greeting alone, the user sends \<^verbatim>\<open>hi\<close>: with the stream
  \<^verbatim>\<open>Hel\<close>, \<^verbatim>\<open>lo!\<close> the log ends with the user message and \<^verbatim>\<open>Hello!\<close>; with the
  stream that fails after its first chunk it ends with the user message and the error
  description.
\<close>

theorem chat_turn_appends_two_witness:
  "messages (fst (render_chat_page (Some (streaming_provider hello_stream)) (Some ''hi'')
       \<lparr>messages = Some [greeting]\<rparr>))
     = Some [greeting, \<lparr>role = ''user'', content = ''hi''\<rparr>, \<lparr>role = ''model'', content = ''Hello!''\<rparr>]
   \<and> messages (fst (render_chat_page (Some (streaming_provider broken_stream)) (Some ''hi'')
       \<lparr>messages = Some [greeting]\<rparr>))
     = Some [greeting, \<lparr>role = ''user'', content = ''hi''\<rparr>,
             \<lparr>role = ''model'', content = ''An error occurred: 503 UNAVAILABLE''\<rparr>]"
proof -
  have p: "''hi'' \<noteq> []" by simp
  have l: "current_log \<lparr>messages = Some [greeting]\<rparr> = [greeting]"
    by (simp add: current_log_def)
  have a: "failure hello_stream = None"
    "write_stream (stream_texts (chunks hello_stream)) = ''Hello!''"
    by (simp add: hello_stream_def, code_simp)
  have b: "failure broken_stream = Some ''503 UNAVAILABLE''"
    by (simp add: broken_stream_def)
  have sa: "generate_content_stream (streaming_provider hello_stream) rq = hello_stream" for rq
    by (simp add: streaming_provider_def)
  have sb: "generate_content_stream (streaming_provider broken_stream) rq = broken_stream" for rq
    by (simp add: streaming_provider_def)
  from chat_turn_appends_two [OF p refl refl refl, of "streaming_provider hello_stream"
      "\<lparr>messages = Some [greeting]\<rparr>"]
  have 1: "messages (fst (render_chat_page (Some (streaming_provider hello_stream)) (Some ''hi'')
       \<lparr>messages = Some [greeting]\<rparr>))
     = Some [greeting, \<lparr>role = ''user'', content = ''hi''\<rparr>, \<lparr>role = ''model'', content = ''Hello!''\<rparr>]"
    by (simp add: l sa a cong: option.case_cong)
  from chat_turn_appends_two [OF p refl refl refl, of "streaming_provider broken_stream"
      "\<lparr>messages = Some [greeting]\<rparr>"]
  have 2: "messages (fst (render_chat_page (Some (streaming_provider broken_stream)) (Some ''hi'')
       \<lparr>messages = Some [greeting]\<rparr>))
     = Some [greeting, \<lparr>role = ''user'', content = ''hi''\<rparr>,
             \<lparr>role = ''model'', content = ''An error occurred: 503 UNAVAILABLE''\<rparr>]"
    by (simp add: l sb b cong: option.case_cong)
  from 1 2 show ?thesis by (rule conjI)
qed

subsection \<open>C8: chunk accumulation\<close>

text \<open>
  Claim C8. The text accumulated from a stream of chunks is the concatenation, in arrival
  order, of the texts of the chunks that have one; a chunk whose text is \<^verbatim>\<open>None\<close> or
  empty is skipped (no empty string reaches the consumer, and dropping such a chunk changes
  nothing); accumulation distributes over concatenation of streams, so accumulating
  \<open>[c1, c2, c3]\<close> gives the text of \<open>[c1, c2]\<close> followed by that of \<open>c3\<close>.
\<close>

theorem chunk_accumulation:
  "write_stream (stream_texts cs)
     = concat (map (\<lambda>c. case chunk_text c of None \<Rightarrow> [] | Some t \<Rightarrow> t) (filter has_text cs))
   \<and> write_stream (stream_texts cs)
     = concat (map (\<lambda>c. case chunk_text c of None \<Rightarrow> [] | Some t \<Rightarrow> t) cs)
   \<and> [] \<notin> set (stream_texts cs)
   \<and> stream_texts (xs @ \<lparr>chunk_text = None\<rparr> # ys) = stream_texts (xs @ ys)
   \<and> stream_texts (xs @ \<lparr>chunk_text = Some []\<rparr> # ys) = stream_texts (xs @ ys)
   \<and> write_stream (stream_texts (xs @ ys))
     = write_stream (stream_texts xs) @ write_stream (stream_texts ys)
   \<and> write_stream (stream_texts [c1, c2, c3])
     = write_stream (stream_texts [c1, c2]) @ write_stream (stream_texts [c3])
   \<and> write_stream (stream_texts [\<lparr>chunk_text = Some ''Hel''\<rparr>, \<lparr>chunk_text = Some ''lo!''\<rparr>])
     = ''Hello!''"
proof -
  have a: "write_stream (stream_texts cs)
     = concat (map (\<lambda>c. case chunk_text c of None \<Rightarrow> [] | Some t \<Rightarrow> t) (filter has_text cs))"
    by (simp add: write_stream_def stream_texts_def)
  have b: "[] \<notin> set (stream_texts cs)"
    by (auto simp: stream_texts_def has_text_def split: option.splits)
  have c: "stream_texts (xs @ \<lparr>chunk_text = None\<rparr> # ys) = stream_texts (xs @ ys)"
    "stream_texts (xs @ \<lparr>chunk_text = Some []\<rparr> # ys) = stream_texts (xs @ ys)"
    by (simp_all add: stream_texts_def has_text_def)
  have d: "write_stream (stream_texts (us @ vs))
     = write_stream (stream_texts us) @ write_stream (stream_texts vs)" for us vs
    by (simp add: stream_texts_append write_stream_def)
  have e: "write_stream (stream_texts [c1, c2, c3])
     = write_stream (stream_texts [c1, c2]) @ write_stream (stream_texts [c3])"
    using d [of "[c1, c2]" "[c3]"] by simp
  have f: "write_stream (stream_texts [\<lparr>chunk_text = Some ''Hel''\<rparr>, \<lparr>chunk_text = Some ''lo!''\<rparr>])
     = ''Hello!''"
    by code_simp
  from a write_stream_all_texts [of cs] b c d [of xs ys] e f show ?thesis
    by (intro conjI)
qed

subsection \<open>C9: the log starts with the greeting\<close>

text \<open>
  Claim C9. After any sequence of runs of the chat page from a fresh session, either no
  run had a client and the log does not exist yet, or the first entry of the log is the
  greeting, whose role is \<^verbatim>\<open>model\<close> (the provider's name for the assistant). The first
  run of the page with a client seeds the log with the greeting alone; a run on an
  existing log only appends to it, and a run without a client leaves it as it is.
\<close>

theorem log_starts_with_greeting:
  "((list_all (\<lambda>(c, p). c = None) inputs \<and> messages (run_session inputs) = None)
     \<or> (\<exists>rest. messages (run_session inputs) = Some (greeting # rest)))
   \<and> role greeting = ''model''
   \<and> messages (fst (render_chat_page (Some cl) None \<lparr>messages = None\<rparr>)) = Some [greeting]
   \<and> (\<exists>app. messages (fst (render_chat_page (Some cl) chat_input \<lparr>messages = Some ms\<rparr>))
               = Some (ms @ app))
   \<and> messages (fst (render_chat_page None chat_input \<lparr>messages = Some ms\<rparr>)) = Some ms"
proof -
  have a: "role greeting = ''model''"
    by (simp add: greeting_def)
  have b: "messages (fst (render_chat_page (Some cl) None \<lparr>messages = None\<rparr>)) = Some [greeting]"
    by (simp add: render_chat_page_def)
  have c: "\<exists>app. messages (fst (render_chat_page (Some cl) chat_input \<lparr>messages = Some ms\<rparr>))
               = Some (ms @ app)"
    using render_chat_page_Some [of cl chat_input "\<lparr>messages = Some ms\<rparr>"]
    by (simp add: current_log_def)
  have d: "messages (fst (render_chat_page None chat_input \<lparr>messages = Some ms\<rparr>)) = Some ms"
    by simp
  from run_session_log [of inputs] a b c d show ?thesis
    by blast
qed

text \<open>
  A session of three runs: the page is opened, the user sends \<^verbatim>\<open>hi\<close> and the reply
  streams, the user sends \<^verbatim>\<open>again\<close> and the stream fails.
\<close>

theorem log_starts_with_greeting_witness:
  "(\<exists>rest. messages (run_session
        [(Some (streaming_provider hello_stream), None),
         (Some (streaming_provider hello_stream), Some ''hi''),
         (Some (streaming_provider broken_stream), Some ''again'')]) = Some (greeting # rest))
   \<and> messages (run_session
        [(Some (streaming_provider hello_stream), None),
         (Some (streaming_provider hello_stream), Some ''hi''),
         (Some (streaming_provider broken_stream), Some ''again'')])
     = Some [greeting,
             \<lparr>role = ''user'', content = ''hi''\<rparr>,
             \<lparr>role = ''model'', content = ''Hello!''\<rparr>,
             \<lparr>role = ''user'', content = ''again''\<rparr>,
             \<lparr>role = ''model'', content = ''An error occurred: 503 UNAVAILABLE''\<rparr>]"
proof -
  let ?ins = "[(Some (streaming_provider hello_stream), None),
         (Some (streaming_provider hello_stream), Some ''hi''),
         (Some (streaming_provider broken_stream), Some ''again'')]"
  have e: "messages (run_session ?ins)
     = Some [greeting,
             \<lparr>role = ''user'', content = ''hi''\<rparr>,
             \<lparr>role = ''model'', content = ''Hello!''\<rparr>,
             \<lparr>role = ''user'', content = ''again''\<rparr>,
             \<lparr>role = ''model'', content = ''An error occurred: 503 UNAVAILABLE''\<rparr>]"
    by code_simp
  have "\<not> list_all (\<lambda>(c, p). c = None) ?ins"
    by simp
  with log_starts_with_greeting [of ?ins]
  have "\<exists>rest. messages (run_session ?ins) = Some (greeting # rest)"
    by blast
  with e show ?thesis by (rule conjI [rotated])
qed

subsection \<open>C10: the decoded value is returned as it is\<close>

text \<open>
  Claim C10. When the response text of the first attempt that does not fail decodes to a
  value, the generator returns the success message with exactly that value, whatever its
  shape. For the response texts \<^verbatim>\<open>null\<close>, \<^verbatim>\<open>42\<close>, \<^verbatim>\<open>[]\<close> and
  \<^verbatim>\<open>[{"day": 1}]\<close> the result is the success message with a payload that is not a
  well-formed itinerary; for \<^verbatim>\<open>null\<close> the payload is \<^verbatim>\<open>None\<close> itself.
\<close>

theorem decoded_value_returned_unvalidated:
  "(k < MAX_RETRIES
      \<and> (\<forall>j<k. \<exists>e. outcome loads cl (itinerary_request d n i) j = Inl e)
      \<and> generate_content cl (itinerary_request d n i) k = Response text
      \<and> loads text = Decoded v
    \<longrightarrow> fst (generate_student_itinerary loads (Some cl) d n i) = (success_message, v))
   \<and> fst (generate_student_itinerary json_loads
             (Some (scripted_provider [Response (Some ''null'')])) d n i)
       = (success_message, PyNone)
   \<and> \<not> well_formed_itinerary PyNone
   \<and> fst (generate_student_itinerary json_loads
             (Some (scripted_provider [Response (Some ''42'')])) d n i)
       = (success_message, PyInt 42)
   \<and> \<not> well_formed_itinerary (PyInt 42)
   \<and> fst (generate_student_itinerary json_loads
             (Some (scripted_provider [Response (Some ''[]'')])) d n i)
       = (success_message, PyList [])
   \<and> \<not> well_formed_itinerary (PyList [])
   \<and> fst (generate_student_itinerary json_loads
             (Some (scripted_provider [Response (Some missing_fields_text)])) d n i)
       = (success_message, missing_fields_payload)
   \<and> \<not> well_formed_itinerary missing_fields_payload"
proof -
  have g: "k < MAX_RETRIES
      \<and> (\<forall>j<k. \<exists>e. outcome loads cl (itinerary_request d n i) j = Inl e)
      \<and> generate_content cl (itinerary_request d n i) k = Response text
      \<and> loads text = Decoded v
    \<longrightarrow> fst (generate_student_itinerary loads (Some cl) d n i) = (success_message, v)"
    by (auto simp: generate_first_success)
  have w: "\<not> well_formed_itinerary (PyInt 42)" "\<not> well_formed_itinerary (PyList [])"
    by (simp_all add: well_formed_itinerary_def)
  show ?thesis
    using g w missing_fields_not_well_formed
    by (simp only: single_response_decoded [OF null_decodes]
          single_response_decoded [OF number_decodes]
          single_response_decoded [OF empty_list_decodes]
          single_response_decoded [OF missing_fields_text_decodes]
          fst_conv not_well_formed_None simp_thms)
qed

text \<open>
  After a first attempt that times out, the response \<^verbatim>\<open>{"day": 1}\<close> of the second
  attempt is returned with the success message, although it is not a list of days.
\<close>

theorem decoded_value_returned_unvalidated_witness:
  "fst (generate_student_itinerary json_loads
          (Some (scripted_provider [Raises ''timeout'', Response (Some ''{\"day\": 1}'')]))
          ''Goa, India'' 3 ''beaches, food'')
     = (success_message, PyDict [(''day'', PyInt 1)])
   \<and> \<not> well_formed_itinerary (PyDict [(''day'', PyInt 1)])"
proof -
  let ?rq = "itinerary_request ''Goa, India'' 3 ''beaches, food''"
  let ?cl = "scripted_provider [Raises ''timeout'', Response (Some ''{\"day\": 1}'')]"
  have k: "1 < MAX_RETRIES"
    by (simp add: MAX_RETRIES_def)
  have f: "\<forall>j<1. \<exists>e. outcome json_loads ?cl ?rq j = Inl e"
    by (simp add: outcome_def attempt_body_def scripted_provider_def)
  have r: "generate_content ?cl ?rq 1 = Response (Some ''{\"day\": 1}'')"
    by (simp add: scripted_provider_def)
  have "fst (generate_student_itinerary json_loads (Some ?cl) ''Goa, India'' 3 ''beaches, food'')
          = (success_message, PyDict [(''day'', PyInt 1)])"
    using decoded_value_returned_unvalidated [of 1 json_loads ?cl "''Goa, India''" 3
        "''beaches, food''" "Some ''{\"day\": 1}''" "PyDict [(''day'', PyInt 1)]"]
      k f r day_object_decodes
    by blast
  then show ?thesis by (simp add: well_formed_itinerary_def)
qed

end
